theory Spec2Isabelle
  imports Complex_Main
begin

section \<open>Python values used by the fitness tracker\<close>

text \<open>
  The module \<^verbatim>\<open>homework.py\<close> computes with Python numbers. A Python \<^verbatim>\<open>int\<close> is an
  unbounded integer; a Python \<^verbatim>\<open>float\<close> is an IEEE 754 binary64 number. A binary64
  number is a finite rational, a negative zero, an infinity or a NaN; \<open>Fin 0\<close> is the
  positive zero.
\<close>

datatype double = Fin rat | NZero | PInf | NInf | NaN

datatype pynum = PInt int | PFloat double

text \<open>A Python \<^verbatim>\<open>str\<close> is a sequence of Unicode code points.\<close>

type_synonym pystr = "nat list"

definition ascii :: "string \<Rightarrow> pystr" where
  "ascii s = map of_char s"

text \<open>The exceptions that the module or the operations it uses can raise.\<close>

datatype py_error = KeyError pystr | TypeError | ZeroDivisionError | OverflowError

text \<open>
  A Python expression either raises or yields a value. \<open>bind_result\<close> sequences two
  evaluations; \<open>binop\<close> evaluates the left operand, then the right one, then applies
  the operator, as Python does for a binary operator.
\<close>

definition bind_result :: "py_error + 'a \<Rightarrow> ('a \<Rightarrow> py_error + 'b) \<Rightarrow> py_error + 'b" where
  "bind_result m f = (case m of Inl e \<Rightarrow> Inl e | Inr x \<Rightarrow> f x)"

definition binop ::
  "('a \<Rightarrow> 'b \<Rightarrow> py_error + 'c) \<Rightarrow> py_error + 'a \<Rightarrow> py_error + 'b \<Rightarrow> py_error + 'c" where
  "binop f l r = bind_result l (\<lambda>a. bind_result r (\<lambda>b. f a b))"

section \<open>Binary64 arithmetic\<close>

subsection \<open>Rounding to nearest, ties to even\<close>

definition pow2 :: "int \<Rightarrow> rat" where
  "pow2 e = (if 0 \<le> e then 2 ^ nat e else 1 / 2 ^ nat (- e))"

text \<open>\<^verbatim>\<open>int.bit_length\<close>: the number of binary digits of a positive integer.\<close>

function bit_length :: "int \<Rightarrow> int" where
  "bit_length n = (if n \<le> 0 then 0 else 1 + bit_length (n div 2))"
  by pat_completeness auto
termination
  by (relation "measure nat") auto

declare bit_length.simps [simp del]

text \<open>The binary exponent of a positive rational \<open>a\<close>: the \<open>e\<close> with \<open>2^e \<le> a < 2^(e+1)\<close>.\<close>

definition ilog2 :: "rat \<Rightarrow> int" where
  "ilog2 a =
     (if 1 \<le> a then bit_length \<lfloor>a\<rfloor> - 1 else - bit_length (\<lceil>1 / a\<rceil> - 1))"

definition round_half_even :: "rat \<Rightarrow> int" where
  "round_half_even x =
     (let f = \<lfloor>x\<rfloor>; d = x - of_int f
      in if d < 1 / 2 then f
         else if 1 / 2 < d then f + 1
         else if even f then f else f + 1)"

text \<open>
  The binary64 number nearest to a rational: 53 significant bits for a normal number,
  multiples of \<open>2^-1074\<close> below \<open>2^-1022\<close>, an infinity from \<open>2^1024\<close> on. A nonzero
  number that rounds to zero keeps its sign.
\<close>

definition round_double :: "rat \<Rightarrow> double" where
  "round_double x =
     (if x = 0 then Fin 0
      else
        let a = \<bar>x\<bar>;
            e = max (ilog2 a) (- 1022);
            q = pow2 (e - 52);
            r = of_int (round_half_even (a / q)) * q
        in if pow2 1024 \<le> r then (if x < 0 then NInf else PInf)
           else if r = 0 then (if x < 0 then NZero else Fin 0)
           else Fin (if x < 0 then - r else r))"

subsection \<open>The operations of IEEE 754 and of the C library\<close>

definition is_nan :: "double \<Rightarrow> bool" where
  "is_nan x = (x = NaN)"

definition is_inf :: "double \<Rightarrow> bool" where
  "is_inf x = (x = PInf \<or> x = NInf)"

text \<open>The C comparison \<^verbatim>\<open>x == 0.0\<close>, true of both zeros.\<close>

definition is_zero :: "double \<Rightarrow> bool" where
  "is_zero x = (x = Fin 0 \<or> x = NZero)"

definition signbit :: "double \<Rightarrow> bool" where
  "signbit x =
     (case x of Fin q \<Rightarrow> q < 0 | NZero \<Rightarrow> True | PInf \<Rightarrow> False | NInf \<Rightarrow> True
      | NaN \<Rightarrow> False)"

definition valof :: "double \<Rightarrow> rat" where
  "valof x = (case x of Fin q \<Rightarrow> q | _ \<Rightarrow> 0)"

definition zero_of :: "bool \<Rightarrow> double" where
  "zero_of neg = (if neg then NZero else Fin 0)"

definition inf_of :: "bool \<Rightarrow> double" where
  "inf_of neg = (if neg then NInf else PInf)"

definition fmul :: "double \<Rightarrow> double \<Rightarrow> double" where
  "fmul x y =
     (if is_nan x \<or> is_nan y then NaN
      else if is_inf x \<or> is_inf y
        then (if is_zero x \<or> is_zero y then NaN else inf_of (signbit x \<noteq> signbit y))
      else if is_zero x \<or> is_zero y then zero_of (signbit x \<noteq> signbit y)
      else round_double (valof x * valof y))"

definition fdiv :: "double \<Rightarrow> double \<Rightarrow> double" where
  "fdiv x y =
     (if is_nan x \<or> is_nan y then NaN
      else if is_inf x then (if is_inf y then NaN else inf_of (signbit x \<noteq> signbit y))
      else if is_inf y then zero_of (signbit x \<noteq> signbit y)
      else if is_zero y then (if is_zero x then NaN else inf_of (signbit x \<noteq> signbit y))
      else if is_zero x then zero_of (signbit x \<noteq> signbit y)
      else round_double (valof x / valof y))"

definition fadd :: "double \<Rightarrow> double \<Rightarrow> double" where
  "fadd x y =
     (if is_nan x \<or> is_nan y then NaN
      else if is_inf x then (if is_inf y \<and> signbit x \<noteq> signbit y then NaN else x)
      else if is_inf y then y
      else if is_zero x \<and> is_zero y then zero_of (signbit x \<and> signbit y)
      else round_double (valof x + valof y))"

definition fneg :: "double \<Rightarrow> double" where
  "fneg x =
     (case x of Fin q \<Rightarrow> (if q = 0 then NZero else Fin (- q)) | NZero \<Rightarrow> Fin 0
      | PInf \<Rightarrow> NInf | NInf \<Rightarrow> PInf | NaN \<Rightarrow> NaN)"

definition fsub :: "double \<Rightarrow> double \<Rightarrow> double" where
  "fsub x y = fadd x (fneg y)"

text \<open>The C comparison \<^verbatim>\<open>x < y\<close>, false when an operand is a NaN.\<close>

definition flt :: "double \<Rightarrow> double \<Rightarrow> bool" where
  "flt x y =
     (if is_nan x \<or> is_nan y then False
      else if x = PInf \<or> y = NInf then False
      else if x = NInf \<or> y = PInf then True
      else valof x < valof y)"

definition trunc :: "rat \<Rightarrow> int" where
  "trunc q = (if 0 \<le> q then \<lfloor>q\<rfloor> else \<lceil>q\<rceil>)"

text \<open>\<^verbatim>\<open>fmod\<close> is exact: the remainder has the sign of \<open>x\<close> and is smaller than \<open>y\<close>.\<close>

definition c_fmod :: "double \<Rightarrow> double \<Rightarrow> double" where
  "c_fmod x y =
     (if is_nan x \<or> is_nan y \<or> is_inf x \<or> is_zero y then NaN
      else if is_inf y \<or> is_zero x then x
      else
        let r = valof x - valof y * of_int (trunc (valof x / valof y))
        in if r = 0 then zero_of (signbit x) else Fin r)"

definition c_floor :: "double \<Rightarrow> double" where
  "c_floor x = (case x of Fin q \<Rightarrow> Fin (of_int \<lfloor>q\<rfloor>) | _ \<Rightarrow> x)"

definition c_copysign :: "double \<Rightarrow> double \<Rightarrow> double" where
  "c_copysign x y = (if signbit x = signbit y then x else fneg x)"

section \<open>Python arithmetic\<close>

text \<open>A float literal of the source denotes the binary64 number nearest to its decimal.\<close>

definition float_literal :: "rat \<Rightarrow> double" where
  "float_literal q = round_double q"

text \<open>
  An \<^verbatim>\<open>int\<close> operand of a float operation is converted to the nearest binary64
  number; the conversion raises \<^verbatim>\<open>OverflowError\<close> when that is out of range.
\<close>

definition long_as_double :: "int \<Rightarrow> py_error + double" where
  "long_as_double n =
     (let d = round_double (of_int n)
      in if is_inf d then Inl OverflowError else Inr d)"

definition as_double :: "pynum \<Rightarrow> py_error + double" where
  "as_double v = (case v of PInt n \<Rightarrow> long_as_double n | PFloat d \<Rightarrow> Inr d)"

text \<open>\<^verbatim>\<open>int / int\<close> is the correctly rounded quotient of the two integers.\<close>

definition long_true_divide :: "int \<Rightarrow> int \<Rightarrow> py_error + double" where
  "long_true_divide a b =
     (if b = 0 then Inl ZeroDivisionError
      else if a = 0 then Inr (zero_of (b < 0))
      else
        let d = round_double (of_int a / of_int b)
        in if is_inf d then Inl OverflowError else Inr d)"

definition float_mul :: "pynum \<Rightarrow> pynum \<Rightarrow> py_error + pynum" where
  "float_mul v w =
     bind_result (as_double v) (\<lambda>a. bind_result (as_double w) (\<lambda>b.
       Inr (PFloat (fmul a b))))"

definition float_add :: "pynum \<Rightarrow> pynum \<Rightarrow> py_error + pynum" where
  "float_add v w =
     bind_result (as_double v) (\<lambda>a. bind_result (as_double w) (\<lambda>b.
       Inr (PFloat (fadd a b))))"

definition float_sub :: "pynum \<Rightarrow> pynum \<Rightarrow> py_error + pynum" where
  "float_sub v w =
     bind_result (as_double v) (\<lambda>a. bind_result (as_double w) (\<lambda>b.
       Inr (PFloat (fsub a b))))"

definition float_div :: "pynum \<Rightarrow> pynum \<Rightarrow> py_error + pynum" where
  "float_div v w =
     bind_result (as_double v) (\<lambda>a. bind_result (as_double w) (\<lambda>b.
       if is_zero b then Inl ZeroDivisionError else Inr (PFloat (fdiv a b))))"

text \<open>
  The quotient computed by CPython for \<^verbatim>\<open>vx // wx\<close> on floats, with \<^verbatim>\<open>wx\<close> not zero:
  \<^verbatim>\<open>
  mod = fmod(vx, wx);
  div = (vx - mod) / wx;
  if (mod) { if ((wx < 0) != (mod < 0)) { mod += wx; div -= 1.0; } }
  if (div) { floordiv = floor(div); if (div - floordiv > 0.5) floordiv += 1.0; }
  else floordiv = copysign(0.0, vx / wx);
  \<close>
\<close>

definition float_div_mod :: "double \<Rightarrow> double \<Rightarrow> double" where
  "float_div_mod vx wx =
     (let m = c_fmod vx wx;
          d = fdiv (fsub vx m) wx;
          d = (if \<not> is_zero m \<and> (flt wx (Fin 0) \<noteq> flt m (Fin 0))
               then fsub d (Fin 1) else d)
      in if \<not> is_zero d
         then (let floordiv = c_floor d
               in if flt (Fin (1 / 2)) (fsub d floordiv) then fadd floordiv (Fin 1)
                  else floordiv)
         else c_copysign (Fin 0) (fdiv vx wx))"

definition float_floor_div :: "pynum \<Rightarrow> pynum \<Rightarrow> py_error + pynum" where
  "float_floor_div v w =
     bind_result (as_double v) (\<lambda>vx. bind_result (as_double w) (\<lambda>wx.
       if is_zero wx then Inl ZeroDivisionError
       else Inr (PFloat (float_div_mod vx wx))))"

text \<open>
  \<^verbatim>\<open>x ** 2\<close> for a float \<^verbatim>\<open>x\<close>: CPython returns a NaN unchanged, the positive infinity
  for an infinity, the positive zero for a zero and \<^verbatim>\<open>1.0\<close> for \<^verbatim>\<open>1.0\<close> and
  \<^verbatim>\<open>-1.0\<close>; otherwise
  it calls the C function \<^verbatim>\<open>pow\<close> on the absolute value, here taken as correctly
  rounded, and raises \<^verbatim>\<open>OverflowError\<close> when the result is out of range.
\<close>

definition float_pow2 :: "double \<Rightarrow> py_error + double" where
  "float_pow2 iv =
     (if is_nan iv then Inr iv
      else if is_inf iv then Inr PInf
      else if is_zero iv then Inr (Fin 0)
      else
        let iv = (if flt iv (Fin 0) then fneg iv else iv)
        in if iv = Fin 1 then Inr (Fin 1)
           else
             let ix = round_double (valof iv * valof iv)
             in if is_inf ix then Inl OverflowError else Inr ix)"

text \<open>
  The operators: exact on two \<^verbatim>\<open>int\<close>s (but for \<^verbatim>\<open>/\<close>), a float operation as soon as
  one operand is a float.
\<close>

fun py_mul :: "pynum \<Rightarrow> pynum \<Rightarrow> py_error + pynum" where
  "py_mul (PInt a) (PInt b) = Inr (PInt (a * b))"
| "py_mul v w = float_mul v w"

fun py_add :: "pynum \<Rightarrow> pynum \<Rightarrow> py_error + pynum" where
  "py_add (PInt a) (PInt b) = Inr (PInt (a + b))"
| "py_add v w = float_add v w"

fun py_sub :: "pynum \<Rightarrow> pynum \<Rightarrow> py_error + pynum" where
  "py_sub (PInt a) (PInt b) = Inr (PInt (a - b))"
| "py_sub v w = float_sub v w"

fun py_truediv :: "pynum \<Rightarrow> pynum \<Rightarrow> py_error + pynum" where
  "py_truediv (PInt a) (PInt b) =
     bind_result (long_true_divide a b) (\<lambda>d. Inr (PFloat d))"
| "py_truediv v w = float_div v w"

fun py_floordiv :: "pynum \<Rightarrow> pynum \<Rightarrow> py_error + pynum" where
  "py_floordiv (PInt a) (PInt b) =
     (if b = 0 then Inl ZeroDivisionError else Inr (PInt (a div b)))"
| "py_floordiv v w = float_floor_div v w"

text \<open>\<^verbatim>\<open>v ** 2\<close>\<close>

fun py_pow2 :: "pynum \<Rightarrow> py_error + pynum" where
  "py_pow2 (PInt a) = Inr (PInt (a * a))"
| "py_pow2 (PFloat x) = bind_result (float_pow2 x) (\<lambda>d. Inr (PFloat d))"

section \<open>Formatting with \<^verbatim>\<open>{:.3f}\<close>\<close>

fun decimal_digits :: "nat \<Rightarrow> pystr" where
  "decimal_digits n =
     (if n < 10 then [48 + n] else decimal_digits (n div 10) @ [48 + n mod 10])"

declare decimal_digits.simps [simp del]

text \<open>
  A finite float is rounded to the nearest multiple of \<open>1/1000\<close>, ties to even, and
  printed with its sign, its integer digits, a point and three digits.
\<close>

definition fixed3 :: "bool \<Rightarrow> rat \<Rightarrow> pystr" where
  "fixed3 neg a =
     (let n = nat (round_half_even (a * 1000))
      in (if neg then ascii ''-'' else []) @ decimal_digits (n div 1000) @ ascii ''.'' @
         [48 + n div 100 mod 10, 48 + n div 10 mod 10, 48 + n mod 10])"

definition double_to_string :: "double \<Rightarrow> pystr" where
  "double_to_string x =
     (case x of
        Fin q \<Rightarrow> fixed3 (q < 0) \<bar>q\<bar>
      | NZero \<Rightarrow> fixed3 True 0
      | PInf \<Rightarrow> ascii ''inf''
      | NInf \<Rightarrow> ascii ''-inf''
      | NaN \<Rightarrow> ascii ''nan'')"

text \<open>
  \<^verbatim>\<open>format(v, ".3f")\<close>: an \<^verbatim>\<open>int\<close> is converted to a float first; \<^verbatim>\<open>None\<close> does not
  accept the format and raises \<^verbatim>\<open>TypeError\<close>.
\<close>

definition format_3f :: "pynum option \<Rightarrow> py_error + pystr" where
  "format_3f v =
     (case v of
        None \<Rightarrow> Inl TypeError
      | Some x \<Rightarrow> bind_result (as_double x) (\<lambda>d. Inr (double_to_string d)))"

section \<open>The information message\<close>

datatype info_message =
  InfoMessage (training_type: pystr) (duration_of: pynum) (distance: pynum)
    (speed: pynum) (calories: "pynum option")

text \<open>
  The literal pieces of the template \<^verbatim>\<open>MESSAGE\<close> before, between and after its five
  replacement fields \<^verbatim>\<open>{}\<close>, \<^verbatim>\<open>{:.3f}\<close>, \<^verbatim>\<open>{:.3f}\<close>, \<^verbatim>\<open>{:.3f}\<close>, \<^verbatim>\<open>{:.3f}\<close>, as
  Unicode code points. The labels are Russian (Cyrillic letters are U+0410 to U+044F):
  training type; duration, hours; distance, kilometres; mean speed, kilometres per
  hour; kilocalories spent.
\<close>

definition MESSAGE_0 :: pystr where
  "MESSAGE_0 =
     [0x422, 0x438, 0x43F, 0x20, 0x442, 0x440, 0x435, 0x43D, 0x438, 0x440, 0x43E, 0x432,
      0x43A, 0x438, 0x3A, 0x20]"

definition MESSAGE_1 :: pystr where
  "MESSAGE_1 =
     [0x3B, 0x20, 0x414, 0x43B, 0x438, 0x442, 0x435, 0x43B, 0x44C, 0x43D, 0x43E, 0x441,
      0x442, 0x44C, 0x3A, 0x20]"

definition MESSAGE_2 :: pystr where
  "MESSAGE_2 =
     [0x20, 0x447, 0x2E, 0x3B, 0x20, 0x414, 0x438, 0x441, 0x442, 0x430, 0x43D, 0x446,
      0x438, 0x44F, 0x3A, 0x20]"

definition MESSAGE_3 :: pystr where
  "MESSAGE_3 =
     [0x20, 0x43A, 0x43C, 0x3B, 0x20, 0x421, 0x440, 0x2E, 0x20, 0x441, 0x43A, 0x43E,
      0x440, 0x43E, 0x441, 0x442, 0x44C, 0x3A, 0x20]"

definition MESSAGE_4 :: pystr where
  "MESSAGE_4 =
     [0x20, 0x43A, 0x43C, 0x2F, 0x447, 0x3B, 0x20, 0x41F, 0x43E, 0x442, 0x440, 0x430,
      0x447, 0x435, 0x43D, 0x43E, 0x20, 0x43A, 0x43A, 0x430, 0x43B, 0x3A, 0x20]"

definition MESSAGE_5 :: pystr where
  "MESSAGE_5 = [0x2E]"

text \<open>\<^verbatim>\<open>InfoMessage.get_message\<close>: the fields are formatted from left to right.\<close>

definition get_message :: "info_message \<Rightarrow> py_error + pystr" where
  "get_message self =
     bind_result (format_3f (Some (duration_of self))) (\<lambda>s1.
     bind_result (format_3f (Some (distance self))) (\<lambda>s2.
     bind_result (format_3f (Some (speed self))) (\<lambda>s3.
     bind_result (format_3f (calories self)) (\<lambda>s4.
       Inr (MESSAGE_0 @ training_type self @ MESSAGE_1 @ s1 @ MESSAGE_2 @ s2 @
            MESSAGE_3 @ s3 @ MESSAGE_4 @ s4 @ MESSAGE_5)))))"

section \<open>The training classes\<close>

text \<open>
  \<^verbatim>\<open>Training\<close> is a dataclass with the fields \<^verbatim>\<open>action\<close>, \<^verbatim>\<open>duration\<close> and
  \<^verbatim>\<open>weight\<close>. \<^verbatim>\<open>Running\<close> adds no field, \<^verbatim>\<open>SportsWalking\<close> adds \<^verbatim>\<open>height\<close>,
  \<^verbatim>\<open>Swimming\<close> adds \<^verbatim>\<open>length_pool\<close> and \<^verbatim>\<open>count_pool\<close>. An instance is its class
  together with its field values.
\<close>

datatype training =
    Training (action: pynum) (duration: pynum) (weight: pynum)
  | Running (action: pynum) (duration: pynum) (weight: pynum)
  | SportsWalking (action: pynum) (duration: pynum) (weight: pynum) (height: pynum)
  | Swimming (action: pynum) (duration: pynum) (weight: pynum)
      (length_pool: pynum) (count_pool: pynum)

text \<open>\<^verbatim>\<open>self.__class__.__name__\<close>\<close>

fun class_name :: "training \<Rightarrow> pystr" where
  "class_name (Training _ _ _) = ascii ''Training''"
| "class_name (Running _ _ _) = ascii ''Running''"
| "class_name (SportsWalking _ _ _ _) = ascii ''SportsWalking''"
| "class_name (Swimming _ _ _ _ _) = ascii ''Swimming''"

subsection \<open>Class constants\<close>

definition M_IN_KM :: pynum where
  "M_IN_KM = PInt 1000"

definition HOUR :: pynum where
  "HOUR = PInt 60"

text \<open>
  \<^verbatim>\<open>self.LEN_STEP\<close> is looked up in the class of \<^verbatim>\<open>self\<close>: \<^verbatim>\<open>Swimming\<close> redefines
  the constant of \<^verbatim>\<open>Training\<close>, the other classes inherit it.
\<close>

fun LEN_STEP :: "training \<Rightarrow> pynum" where
  "LEN_STEP (Training _ _ _) = PFloat (float_literal (65 / 100))"
| "LEN_STEP (Running _ _ _) = PFloat (float_literal (65 / 100))"
| "LEN_STEP (SportsWalking _ _ _ _) = PFloat (float_literal (65 / 100))"
| "LEN_STEP (Swimming _ _ _ _ _) = PFloat (float_literal (138 / 100))"

definition COEF_CALORIE_1 :: pynum where
  "COEF_CALORIE_1 = PInt 18"

definition COEF_CALORIE_2 :: pynum where
  "COEF_CALORIE_2 = PInt 20"

definition COEF_CALORIE_01 :: pynum where
  "COEF_CALORIE_01 = PFloat (float_literal (35 / 1000))"

definition COEF_CALORIE_02 :: pynum where
  "COEF_CALORIE_02 = PFloat (float_literal (29 / 1000))"

definition COEF_CALORIE_001 :: pynum where
  "COEF_CALORIE_001 = PFloat (float_literal (11 / 10))"

definition COEF_CALORIE_002 :: pynum where
  "COEF_CALORIE_002 = PInt 2"

subsection \<open>Methods\<close>

text \<open>
  Each method body is the expression of the source, evaluated from left to right. A call
  \<^verbatim>\<open>self.get_distance()\<close>, \<^verbatim>\<open>self.get_mean_speed()\<close> or
  \<^verbatim>\<open>self.get_spent_calories()\<close> runs the method of the class of \<^verbatim>\<open>self\<close>.
\<close>

definition Training_get_distance :: "training \<Rightarrow> py_error + pynum" where
  "Training_get_distance self =
     binop py_truediv
       (binop py_mul (Inr (action self)) (Inr (LEN_STEP self)))
       (Inr M_IN_KM)"

definition Swimming_get_distance :: "training \<Rightarrow> py_error + pynum" where
  "Swimming_get_distance self =
     binop py_truediv
       (binop py_mul (Inr (action self)) (Inr (LEN_STEP self)))
       (Inr M_IN_KM)"

fun get_distance :: "training \<Rightarrow> py_error + pynum" where
  "get_distance (Swimming a d w lp cp) = Swimming_get_distance (Swimming a d w lp cp)"
| "get_distance self = Training_get_distance self"

definition Training_get_mean_speed :: "training \<Rightarrow> py_error + pynum" where
  "Training_get_mean_speed self =
     binop py_truediv (get_distance self) (Inr (duration self))"

definition Swimming_get_mean_speed :: "training \<Rightarrow> py_error + pynum" where
  "Swimming_get_mean_speed self =
     binop py_truediv
       (binop py_truediv
          (binop py_mul (Inr (length_pool self)) (Inr (count_pool self)))
          (Inr M_IN_KM))
       (Inr (duration self))"

fun get_mean_speed :: "training \<Rightarrow> py_error + pynum" where
  "get_mean_speed (Swimming a d w lp cp) = Swimming_get_mean_speed (Swimming a d w lp cp)"
| "get_mean_speed self = Training_get_mean_speed self"

text \<open>The body of \<^verbatim>\<open>Training.get_spent_calories\<close> is \<^verbatim>\<open>pass\<close>: it returns \<^verbatim>\<open>None\<close>.\<close>

definition Training_get_spent_calories :: "training \<Rightarrow> py_error + pynum option" where
  "Training_get_spent_calories self = Inr None"

definition Running_get_spent_calories :: "training \<Rightarrow> py_error + pynum option" where
  "Running_get_spent_calories self =
     map_sum id Some
       (binop py_mul
          (binop py_mul
             (binop py_truediv
                (binop py_mul
                   (binop py_sub
                      (binop py_mul (Inr COEF_CALORIE_1) (get_mean_speed self))
                      (Inr COEF_CALORIE_2))
                   (Inr (weight self)))
                (Inr M_IN_KM))
             (Inr (duration self)))
          (Inr HOUR))"

definition SportsWalking_get_spent_calories :: "training \<Rightarrow> py_error + pynum option" where
  "SportsWalking_get_spent_calories self =
     map_sum id Some
       (binop py_mul
          (binop py_mul
             (binop py_add
                (binop py_mul (Inr COEF_CALORIE_01) (Inr (weight self)))
                (binop py_mul
                   (binop py_mul
                      (binop py_floordiv
                         (bind_result (get_mean_speed self) py_pow2)
                         (Inr (height self)))
                      (Inr COEF_CALORIE_02))
                   (Inr (weight self))))
             (Inr (duration self)))
          (Inr HOUR))"

definition Swimming_get_spent_calories :: "training \<Rightarrow> py_error + pynum option" where
  "Swimming_get_spent_calories self =
     map_sum id Some
       (binop py_mul
          (binop py_mul
             (binop py_add (get_mean_speed self) (Inr COEF_CALORIE_001))
             (Inr COEF_CALORIE_002))
          (Inr (weight self)))"

fun get_spent_calories :: "training \<Rightarrow> py_error + pynum option" where
  "get_spent_calories (Training a d w) = Training_get_spent_calories (Training a d w)"
| "get_spent_calories (Running a d w) = Running_get_spent_calories (Running a d w)"
| "get_spent_calories (SportsWalking a d w h) =
     SportsWalking_get_spent_calories (SportsWalking a d w h)"
| "get_spent_calories (Swimming a d w lp cp) =
     Swimming_get_spent_calories (Swimming a d w lp cp)"

text \<open>
  \<^verbatim>\<open>show_training_info\<close> evaluates the arguments of \<^verbatim>\<open>InfoMessage\<close> from left to
  right.
\<close>

definition show_training_info :: "training \<Rightarrow> py_error + info_message" where
  "show_training_info self =
     bind_result (get_distance self) (\<lambda>dist.
     bind_result (get_mean_speed self) (\<lambda>sp.
     bind_result (get_spent_calories self) (\<lambda>cal.
       Inr (InfoMessage (class_name self) (duration self) dist sp cal))))"

subsection \<open>Construction\<close>

text \<open>
  Calling a class with \<^verbatim>\<open>*data\<close> binds the elements of \<^verbatim>\<open>data\<close> to the parameters of
  the generated \<^verbatim>\<open>__init__\<close> in field order; any other number of arguments raises
  \<^verbatim>\<open>TypeError\<close>. \<^verbatim>\<open>Running\<close> inherits the \<^verbatim>\<open>__init__\<close> of \<^verbatim>\<open>Training\<close>.
\<close>

fun Running_init :: "pynum list \<Rightarrow> py_error + training" where
  "Running_init [a, d, w] = Inr (Running a d w)"
| "Running_init _ = Inl TypeError"

fun SportsWalking_init :: "pynum list \<Rightarrow> py_error + training" where
  "SportsWalking_init [a, d, w, h] = Inr (SportsWalking a d w h)"
| "SportsWalking_init _ = Inl TypeError"

fun Swimming_init :: "pynum list \<Rightarrow> py_error + training" where
  "Swimming_init [a, d, w, lp, cp] = Inr (Swimming a d w lp cp)"
| "Swimming_init _ = Inl TypeError"

section \<open>Reading a package and the main function\<close>

definition traning_types :: "pystr \<rightharpoonup> (pynum list \<Rightarrow> py_error + training)" where
  "traning_types = map_of
     [(ascii ''SWM'', Swimming_init),
      (ascii ''RUN'', Running_init),
      (ascii ''WLK'', SportsWalking_init)]"

definition read_package :: "pystr \<Rightarrow> pynum list \<Rightarrow> py_error + training" where
  "read_package workout_type data =
     (case traning_types workout_type of
        None \<Rightarrow> Inl (KeyError (ascii ''Workout not found''))
      | Some cls \<Rightarrow> cls data)"

text \<open>\<^verbatim>\<open>main\<close> prints the message; the model returns the printed line.\<close>

definition main :: "training \<Rightarrow> py_error + pystr" where
  "main training = bind_result (show_training_info training) get_message"

section \<open>Predicates of the statements\<close>

text \<open>The Python test \<^verbatim>\<open>v == 0\<close> on a number.\<close>

definition py_is_zero :: "pynum \<Rightarrow> bool" where
  "py_is_zero v = (case v of PInt n \<Rightarrow> n = 0 | PFloat x \<Rightarrow> is_zero x)"

text \<open>An evaluation that ends in \<^verbatim>\<open>ZeroDivisionError\<close> or in \<^verbatim>\<open>OverflowError\<close>.\<close>

definition division_hazard :: "py_error + 'a \<Rightarrow> bool" where
  "division_hazard m = (m = Inl ZeroDivisionError \<or> m = Inl OverflowError)"

text \<open>A decimal digit, as a code point.\<close>

definition is_digit :: "nat \<Rightarrow> bool" where
  "is_digit c = (48 \<le> c \<and> c \<le> 57)"

text \<open>
  A string that ends with a point and exactly three digits, after a nonempty run of
  digits with at most a minus sign in front.
\<close>

definition three_decimals :: "pystr \<Rightarrow> bool" where
  "three_decimals s =
     (case rev s of
        d3 # d2 # d1 # p # t \<Rightarrow>
          p = 46 \<and> is_digit d1 \<and> is_digit d2 \<and> is_digit d3 \<and> t \<noteq> [] \<and>
          list_all is_digit (butlast t) \<and> (is_digit (last t) \<or> last t = 45)
      | _ \<Rightarrow> False)"

text \<open>A float that is neither an infinity nor a NaN.\<close>

definition is_finite :: "double \<Rightarrow> bool" where
  "is_finite x = (case x of Fin _ \<Rightarrow> True | NZero \<Rightarrow> True | _ \<Rightarrow> False)"

section \<open>Properties of rounding\<close>

text \<open>
  \<open>ilog2\<close> is the binary exponent, so \<open>round_double\<close> keeps 53 significant bits of a
  number in the normal range and overflows from \<open>2^1024\<close> on. The two lemmas
  \<open>round_double_normal\<close> and \<open>round_double_overflow\<close> also serve to evaluate a rounding
  once the exponent is known.
\<close>

lemma pow2_power_int: "pow2 e = power_int 2 e"
  by (simp add: pow2_def power_int_def power_one_over inverse_eq_divide)

lemma pow2_pos: "0 < pow2 e"
  by (simp add: pow2_power_int)

lemma pow2_add: "pow2 (a + b) = pow2 a * pow2 b"
  by (simp add: pow2_power_int power_int_add)

lemma pow2_strict_mono: "a < b \<Longrightarrow> pow2 a < pow2 b"
  by (simp add: pow2_power_int power_int_strict_increasing)

lemma pow2_mono: "a \<le> b \<Longrightarrow> pow2 a \<le> pow2 b"
  by (simp add: pow2_power_int power_int_increasing)

lemma pow2_nonneg_exp: "0 \<le> e \<Longrightarrow> pow2 e = 2 ^ nat e"
  by (simp add: pow2_def)

lemma bit_length_nonpos: "n \<le> 0 \<Longrightarrow> bit_length n = 0"
  by (simp add: bit_length.simps)

lemma bit_length_pos: "0 < n \<Longrightarrow> bit_length n = 1 + bit_length (n div 2)"
  by (subst bit_length.simps) simp

lemma bit_length_bounds:
  "0 < n \<Longrightarrow> 1 \<le> bit_length n \<and> 2 ^ nat (bit_length n - 1) \<le> n \<and> n < 2 ^ nat (bit_length n)"
proof (induction n rule: bit_length.induct)
  case (1 n)
  have bl: "bit_length n = 1 + bit_length (n div 2)"
    using "1.prems" by (rule bit_length_pos)
  show ?case
  proof (cases "n = 1")
    case True
    then show ?thesis
      by (simp add: bit_length_pos bit_length_nonpos)
  next
    case False
    with "1.prems" have pos: "0 < n div 2" by simp
    let ?k = "bit_length (n div 2)"
    from "1.IH" "1.prems" pos
    have IH: "1 \<le> ?k" "2 ^ nat (?k - 1) \<le> n div 2" "n div 2 < 2 ^ nat ?k"
      by simp_all
    have e: "nat ?k = Suc (nat (?k - 1))" using IH(1) by simp
    have lo: "(2::int) ^ nat ?k \<le> n"
    proof -
      have "(2::int) ^ nat ?k = 2 * 2 ^ nat (?k - 1)" by (subst e) simp
      also have "\<dots> \<le> 2 * (n div 2)" using IH(2) by simp
      also have "\<dots> \<le> n" by simp
      finally show ?thesis .
    qed
    have hi: "n < 2 ^ nat (1 + ?k)"
    proof -
      have "n < 2 * (n div 2 + 1)" by simp
      also have "\<dots> \<le> 2 * 2 ^ nat ?k" using IH(3) by simp
      also have "\<dots> = 2 ^ nat (1 + ?k)" using IH(1) by (simp add: nat_add_distrib)
      finally show ?thesis .
    qed
    show ?thesis using IH(1) lo hi by (simp add: bl)
  qed
qed

lemma ilog2_bounds:
  assumes "0 < a"
  shows "pow2 (ilog2 a) \<le> a \<and> a < pow2 (ilog2 a + 1)"
proof (cases "1 \<le> a")
  case True
  let ?m = "\<lfloor>a\<rfloor>"
  let ?k = "bit_length ?m"
  have m: "0 < ?m" using True by simp
  from bit_length_bounds [OF m]
  have b: "1 \<le> ?k" "2 ^ nat (?k - 1) \<le> ?m" "?m < 2 ^ nat ?k" by simp_all
  have il: "ilog2 a = ?k - 1" using True by (simp add: ilog2_def)
  have "(of_int (2 ^ nat (?k - 1)) :: rat) \<le> of_int ?m" using b(2) by (simp only: of_int_le_iff)
  also have "\<dots> \<le> a" by simp
  finally have lo: "pow2 (?k - 1) \<le> a" using b(1) by (simp add: pow2_nonneg_exp)
  have "?m + 1 \<le> 2 ^ nat ?k" using b(3) by simp
  then have "(of_int (?m + 1) :: rat) \<le> of_int (2 ^ nat ?k)" by (simp only: of_int_le_iff)
  moreover have "a < of_int (?m + 1)" by linarith
  ultimately have "a < of_int (2 ^ nat ?k)" by (rule less_le_trans [rotated])
  then have hi: "a < pow2 ?k" using b(1) by (simp add: pow2_nonneg_exp)
  show ?thesis using lo hi by (simp add: il)
next
  case False
  let ?b = "1 / a"
  let ?c = "\<lceil>?b\<rceil>"
  let ?k = "bit_length (?c - 1)"
  have b1: "1 < ?b" using False assms by simp
  then have c: "1 < ?c" by (simp add: less_ceiling_iff)
  then have m: "0 < ?c - 1" by simp
  from bit_length_bounds [OF m]
  have b: "1 \<le> ?k" "2 ^ nat (?k - 1) \<le> ?c - 1" "?c - 1 < 2 ^ nat ?k" by simp_all
  have il: "ilog2 a = - ?k" using False by (simp add: ilog2_def)
  have "?c \<le> 2 ^ nat ?k" using b(3) by simp
  then have "(of_int ?c :: rat) \<le> of_int (2 ^ nat ?k)" by (simp only: of_int_le_iff)
  moreover have "?b \<le> of_int ?c" by simp
  ultimately have "?b \<le> of_int (2 ^ nat ?k)" by (rule order_trans [rotated])
  then have "?b \<le> 2 ^ nat ?k" by simp
  then have "1 \<le> a * 2 ^ nat ?k" using assms by (simp add: field_simps)
  then have lo: "pow2 (- ?k) \<le> a" using b(1) by (simp add: pow2_def field_simps)
  have "(of_int (2 ^ nat (?k - 1)) :: rat) \<le> of_int (?c - 1)" using b(2) by (simp only: of_int_le_iff)
  moreover have "of_int (?c - 1) < ?b" by linarith
  ultimately have "of_int (2 ^ nat (?k - 1)) < ?b" by (rule le_less_trans)
  then have "2 ^ nat (?k - 1) < ?b" by simp
  then have h: "a * 2 ^ nat (?k - 1) < 1" using assms by (simp add: field_simps)
  have hi: "a < pow2 (- ?k + 1)"
  proof (cases "?k = 1")
    case True
    then show ?thesis using h by (simp add: pow2_def)
  next
    case False
    then have "nat (- (- ?k + 1)) = nat (?k - 1)" "\<not> 0 \<le> - ?k + 1" using b(1) by simp_all
    then show ?thesis using h by (simp add: pow2_def field_simps)
  qed
  show ?thesis using lo hi by (simp add: il)
qed

lemma ilog2_unique:
  assumes "pow2 e \<le> a" "a < pow2 (e + 1)"
  shows "ilog2 a = e"
proof -
  have pos: "0 < a" using assms(1) pow2_pos [of e] by linarith
  from ilog2_bounds [OF pos] have b: "pow2 (ilog2 a) \<le> a" "a < pow2 (ilog2 a + 1)" by simp_all
  have "\<not> ilog2 a < e"
  proof
    assume "ilog2 a < e"
    then have "pow2 (ilog2 a + 1) \<le> pow2 e" by (intro pow2_mono) simp
    with b(2) assms(1) show False by linarith
  qed
  moreover have "\<not> e < ilog2 a"
  proof
    assume "e < ilog2 a"
    then have "pow2 (e + 1) \<le> pow2 (ilog2 a)" by (intro pow2_mono) simp
    with b(1) assms(2) show False by linarith
  qed
  ultimately show ?thesis by simp
qed


lemma pow2_less_cancel: "pow2 a < pow2 b \<Longrightarrow> a < b"
  using pow2_mono [of b a] by (cases "a < b") simp_all

lemma pow2_diff: "pow2 (a - b) = pow2 a / pow2 b"
  using pow2_add [of "a - b" b] pow2_pos [of b] by (simp add: field_simps)

lemma pow2_52: "pow2 52 = 4503599627370496"
  by (simp add: pow2_def)

lemma pow2_53: "pow2 53 = 9007199254740992"
  by (simp add: pow2_def)

lemma round_half_even_bounds:
  "of_int (round_half_even x) \<le> x + 1 / 2 \<and> x - 1 / 2 \<le> of_int (round_half_even x)"
proof -
  obtain f where f: "f = \<lfloor>x\<rfloor>" by simp
  have b: "of_int f \<le> x" "x < of_int f + 1" unfolding f by linarith+
  have r: "round_half_even x =
      (if x - of_int f < 1 / 2 then f
       else if 1 / 2 < x - of_int f then f + 1 else if even f then f else f + 1)"
    by (simp add: round_half_even_def f)
  show ?thesis
    unfolding r using b by (simp split: if_splits)
qed

lemma round_half_even_ge:
  assumes "of_int k \<le> x"
  shows "k \<le> round_half_even x"
proof -
  have "(of_int k :: rat) - 1 / 2 \<le> of_int (round_half_even x)"
    using assms round_half_even_bounds [of x] by linarith
  then have "(of_int k :: rat) < of_int (round_half_even x) + 1" by linarith
  then have "(of_int k :: rat) < of_int (round_half_even x + 1)" by simp
  then have "k < round_half_even x + 1" by (simp only: of_int_less_iff)
  then show ?thesis by simp
qed

lemma round_half_even_le:
  assumes "x \<le> of_int k"
  shows "round_half_even x \<le> k"
proof -
  have "of_int (round_half_even x) \<le> (of_int k :: rat) + 1 / 2"
    using assms round_half_even_bounds [of x] by linarith
  then have "(of_int (round_half_even x) :: rat) < of_int (k + 1)" by simp
  then have "round_half_even x < k + 1" by (simp only: of_int_less_iff)
  then show ?thesis by simp
qed

lemma scaled_range:
  assumes "pow2 e \<le> a" "a < pow2 (e + 1)"
  shows "4503599627370496 \<le> a / pow2 (e - 52)" "a / pow2 (e - 52) < 9007199254740992"
proof -
  have q: "0 < pow2 (e - 52)" by (rule pow2_pos)
  have e: "pow2 e = 4503599627370496 * pow2 (e - 52)"
    using pow2_add [of 52 "e - 52"] by (simp add: pow2_52)
  have e1: "pow2 (e + 1) = 9007199254740992 * pow2 (e - 52)"
    using pow2_add [of 53 "e - 52"] by (simp add: pow2_53 add.commute)
  show "4503599627370496 \<le> a / pow2 (e - 52)"
    using assms(1) q by (simp add: e pos_le_divide_eq)
  show "a / pow2 (e - 52) < 9007199254740992"
    using assms(2) q by (simp add: e1 pos_divide_less_eq)
qed

lemma round_double_normal:
  assumes "pow2 e \<le> \<bar>x\<bar>" "\<bar>x\<bar> < pow2 (e + 1)" "- 1022 \<le> e" "e < 1023"
  shows "round_double x =
    Fin (if x < 0 then - (of_int (round_half_even (\<bar>x\<bar> / pow2 (e - 52))) * pow2 (e - 52))
         else of_int (round_half_even (\<bar>x\<bar> / pow2 (e - 52))) * pow2 (e - 52))"
proof -
  let ?q = "pow2 (e - 52)"
  let ?n = "round_half_even (\<bar>x\<bar> / ?q)"
  have q: "0 < ?q" by (rule pow2_pos)
  have x0: "x \<noteq> 0" using assms(1) pow2_pos [of e] by auto
  have il: "ilog2 \<bar>x\<bar> = e" using assms(1,2) by (rule ilog2_unique)
  from scaled_range [OF assms(1,2)]
  have sc: "of_int 4503599627370496 \<le> \<bar>x\<bar> / ?q" "\<bar>x\<bar> / ?q \<le> of_int 9007199254740992"
    by simp_all
  have lo: "4503599627370496 \<le> ?n" using sc(1) by (rule round_half_even_ge)
  have hi: "?n \<le> 9007199254740992" using sc(2) by (rule round_half_even_le)
  have rpos: "0 < of_int ?n * ?q" using lo q by simp
  have "of_int ?n * ?q \<le> 9007199254740992 * ?q"
    using hi q by (simp add: mult_right_mono)
  also have "\<dots> = pow2 (e + 1)"
    using pow2_add [of 53 "e - 52"] by (simp add: pow2_53 add.commute)
  also have "\<dots> < pow2 1024" using assms(4) by (intro pow2_strict_mono) simp
  finally have rlt: "\<not> pow2 1024 \<le> of_int ?n * ?q" by simp
  have m: "max e (- 1022) = e" using assms(3) by simp
  have r0: "of_int ?n * ?q \<noteq> 0" using rpos by (rule less_imp_neq [THEN not_sym])
  show ?thesis
    unfolding round_double_def Let_def il m by (simp only: x0 rlt r0 if_False)
qed

lemma round_double_overflow:
  assumes "pow2 1024 \<le> \<bar>x\<bar>"
  shows "round_double x = inf_of (x < 0)"
proof -
  let ?a = "\<bar>x\<bar>"
  let ?e = "ilog2 ?a"
  let ?q = "pow2 (?e - 52)"
  let ?n = "round_half_even (?a / ?q)"
  have pos: "0 < ?a" using assms pow2_pos [of 1024] by linarith
  then have x0: "x \<noteq> 0" by simp
  from ilog2_bounds [OF pos] have b: "pow2 ?e \<le> ?a" "?a < pow2 (?e + 1)" by simp_all
  have "pow2 1024 < pow2 (?e + 1)" using assms b(2) by linarith
  then have e: "1024 \<le> ?e" using pow2_less_cancel [of 1024 "?e + 1"] by simp
  then have mx: "max ?e (- 1022) = ?e" by simp
  have q: "0 < ?q" by (rule pow2_pos)
  from scaled_range [OF b] have "of_int 4503599627370496 \<le> ?a / ?q" by simp
  then have lo: "4503599627370496 \<le> ?n" by (rule round_half_even_ge)
  have "pow2 1024 \<le> pow2 ?e" using e by (rule pow2_mono)
  also have "\<dots> = 4503599627370496 * ?q"
    using pow2_add [of 52 "?e - 52"] by (simp add: pow2_52)
  also have "\<dots> \<le> of_int ?n * ?q" using lo q by (simp add: mult_right_mono)
  finally have big: "pow2 1024 \<le> of_int ?n * ?q" .
  show ?thesis
    unfolding round_double_def Let_def mx inf_of_def by (simp only: x0 big if_False if_True)
qed

lemma floor_rat_numeral_div:
  "\<lfloor>numeral a / numeral b :: rat\<rfloor> = numeral a div numeral b"
  using floor_divide_of_int_eq [of "numeral a" "numeral b", where ?'a = rat] by simp

lemma floor_rat_one_div:
  "\<lfloor>1 / numeral b :: rat\<rfloor> = 1 div numeral b"
  using floor_divide_of_int_eq [of 1 "numeral b", where ?'a = rat] by simp

lemma floor_rat_neg_numeral_div:
  "\<lfloor>- (numeral a / numeral b) :: rat\<rfloor> = - numeral a div numeral b"
  using floor_divide_of_int_eq [of "- numeral a" "numeral b", where ?'a = rat] by simp

lemma floor_rat_neg_one_div:
  "\<lfloor>- (1 / numeral b) :: rat\<rfloor> = - 1 div numeral b"
  using floor_divide_of_int_eq [of "- 1" "numeral b", where ?'a = rat] by simp

lemmas floor_rat_eval = floor_rat_numeral_div floor_rat_one_div floor_rat_neg_numeral_div
  floor_rat_neg_one_div

section \<open>Sequencing\<close>

lemma bind_result_Inr [simp]: "bind_result (Inr x) f = f x"
  by (simp add: bind_result_def)

lemma bind_result_Inl [simp]: "bind_result (Inl e) f = Inl e"
  by (simp add: bind_result_def)

lemma bind_result_assoc:
  "bind_result (bind_result m f) g = bind_result m (\<lambda>x. bind_result (f x) g)"
  by (cases m) simp_all

lemma binop_Inr [simp]: "binop f (Inr a) (Inr b) = f a b"
  by (simp add: binop_def)

lemma binop_Inr_right: "binop f l (Inr b) = bind_result l (\<lambda>a. f a b)"
  by (simp add: binop_def)

lemma binop_Inr_left: "binop f (Inr a) r = bind_result r (f a)"
  by (simp add: binop_def)

lemma binop_Inl [simp]: "binop f (Inl e) r = Inl e"
  by (simp add: binop_def)

section \<open>Which errors the operators raise\<close>

lemma round_double_0 [simp]: "round_double 0 = Fin 0"
  by (simp add: round_double_def)

lemma long_as_double_0 [simp]: "long_as_double 0 = Inr (Fin 0)"
  by (simp add: long_as_double_def is_inf_def)

lemma long_as_double_error: "long_as_double n = Inl e \<Longrightarrow> e = OverflowError"
  by (simp add: long_as_double_def Let_def split: if_splits)

lemma as_double_error: "as_double v = Inl e \<Longrightarrow> e = OverflowError"
  by (cases v) (simp_all add: as_double_def long_as_double_error)

lemma as_double_zero:
  "py_is_zero v \<Longrightarrow> \<exists>z. as_double v = Inr z \<and> is_zero z"
  by (cases v) (simp_all add: py_is_zero_def as_double_def is_zero_def)

lemma float_mul_error: "float_mul v w = Inl e \<Longrightarrow> e = OverflowError"
  by (cases "as_double v"; cases "as_double w")
    (auto simp add: float_mul_def dest: as_double_error)

lemma float_add_error: "float_add v w = Inl e \<Longrightarrow> e = OverflowError"
  by (cases "as_double v"; cases "as_double w")
    (auto simp add: float_add_def dest: as_double_error)

lemma float_sub_error: "float_sub v w = Inl e \<Longrightarrow> e = OverflowError"
  by (cases "as_double v"; cases "as_double w")
    (auto simp add: float_sub_def dest: as_double_error)

lemma float_div_error:
  "float_div v w = Inl e \<Longrightarrow> e = ZeroDivisionError \<or> e = OverflowError"
  by (cases "as_double v"; cases "as_double w")
    (auto simp add: float_div_def dest: as_double_error split: if_splits)

lemma float_floor_div_error:
  "float_floor_div v w = Inl e \<Longrightarrow> e = ZeroDivisionError \<or> e = OverflowError"
  by (cases "as_double v"; cases "as_double w")
    (auto simp add: float_floor_div_def dest: as_double_error split: if_splits)

lemma long_true_divide_error:
  "long_true_divide a b = Inl e \<Longrightarrow> e = ZeroDivisionError \<or> e = OverflowError"
  by (auto simp add: long_true_divide_def Let_def split: if_splits)

lemma py_mul_error: "py_mul v w = Inl e \<Longrightarrow> e = OverflowError"
  by (cases v; cases w) (auto dest: float_mul_error)

lemma py_add_error: "py_add v w = Inl e \<Longrightarrow> e = OverflowError"
  by (cases v; cases w) (auto dest: float_add_error)

lemma py_sub_error: "py_sub v w = Inl e \<Longrightarrow> e = OverflowError"
  by (cases v; cases w) (auto dest: float_sub_error)

lemma py_truediv_error:
  "py_truediv v w = Inl e \<Longrightarrow> e = ZeroDivisionError \<or> e = OverflowError"
proof (cases v; cases w)
  fix a b assume "v = PInt a" "w = PInt b" and "py_truediv v w = Inl e"
  then show ?thesis
    by (cases "long_true_divide a b") (auto dest: long_true_divide_error)
qed (auto dest: float_div_error)

lemma py_floordiv_error:
  "py_floordiv v w = Inl e \<Longrightarrow> e = ZeroDivisionError \<or> e = OverflowError"
  by (cases v; cases w) (auto dest: float_floor_div_error split: if_splits)

lemma py_pow2_error: "py_pow2 v = Inl e \<Longrightarrow> e = OverflowError"
proof (cases v)
  case (PFloat x)
  assume "py_pow2 v = Inl e"
  with PFloat have "float_pow2 x = Inl e" by (cases "float_pow2 x") simp_all
  then show ?thesis
    by (simp add: float_pow2_def Let_def split: if_splits)
qed simp

section \<open>Division by a zero\<close>

lemma float_div_by_zero:
  assumes "py_is_zero w"
  shows "division_hazard (float_div v w)"
proof -
  from as_double_zero [OF assms] obtain z where z: "as_double w = Inr z" "is_zero z" by blast
  show ?thesis
    by (cases "as_double v")
      (auto simp add: float_div_def z division_hazard_def dest: as_double_error)
qed

lemma float_floor_div_by_zero:
  assumes "py_is_zero w"
  shows "division_hazard (float_floor_div v w)"
proof -
  from as_double_zero [OF assms] obtain z where z: "as_double w = Inr z" "is_zero z" by blast
  show ?thesis
    by (cases "as_double v")
      (auto simp add: float_floor_div_def z division_hazard_def dest: as_double_error)
qed

lemma py_truediv_by_zero:
  assumes "py_is_zero w"
  shows "division_hazard (py_truediv v w)"
proof (cases v; cases w)
  fix a b assume "v = PInt a" "w = PInt b"
  with assms show ?thesis
    by (simp add: py_is_zero_def long_true_divide_def division_hazard_def)
qed (use assms float_div_by_zero in auto)

lemma py_floordiv_by_zero:
  assumes "py_is_zero w"
  shows "division_hazard (py_floordiv v w)"
proof (cases v; cases w)
  fix a b assume "v = PInt a" "w = PInt b"
  with assms show ?thesis
    by (simp add: py_is_zero_def division_hazard_def)
qed (use assms float_floor_div_by_zero in auto)


lemma get_distance_unfold:
  "get_distance r =
     bind_result (py_mul (action r) (LEN_STEP r)) (\<lambda>s. py_truediv s M_IN_KM)"
  by (cases r)
    (simp_all only: get_distance.simps Training_get_distance_def Swimming_get_distance_def
      binop_def bind_result_Inr)

lemma get_distance_error:
  assumes "get_distance r = Inl e"
  shows "e = ZeroDivisionError \<or> e = OverflowError"
  using assms unfolding get_distance_unfold
  by (cases "py_mul (action r) (LEN_STEP r)") (auto dest: py_mul_error py_truediv_error)

lemma hazard_bind:
  assumes "\<And>e. m = Inl e \<Longrightarrow> e = ZeroDivisionError \<or> e = OverflowError"
    and "\<And>x. division_hazard (f x)"
  shows "division_hazard (bind_result m f)"
  using assms by (cases m) (auto simp add: division_hazard_def)

lemma Training_get_mean_speed_zero:
  assumes "py_is_zero (duration r)"
  shows "division_hazard (Training_get_mean_speed r)"
  unfolding Training_get_mean_speed_def binop_Inr_right
  by (rule hazard_bind) (auto dest: get_distance_error intro: py_truediv_by_zero assms)

lemma Swimming_get_mean_speed_unfold:
  "Swimming_get_mean_speed r =
     bind_result
       (bind_result (py_mul (length_pool r) (count_pool r)) (\<lambda>p. py_truediv p M_IN_KM))
       (\<lambda>k. py_truediv k (duration r))"
  by (simp only: Swimming_get_mean_speed_def binop_def bind_result_Inr)

lemma Swimming_get_mean_speed_zero:
  assumes "py_is_zero (duration r)"
  shows "division_hazard (Swimming_get_mean_speed r)"
  unfolding Swimming_get_mean_speed_unfold
proof (rule hazard_bind)
  fix e
  assume "bind_result (py_mul (length_pool r) (count_pool r)) (\<lambda>p. py_truediv p M_IN_KM) = Inl e"
  then show "e = ZeroDivisionError \<or> e = OverflowError"
    by (cases "py_mul (length_pool r) (count_pool r)") (auto dest: py_mul_error py_truediv_error)
qed (rule py_truediv_by_zero [OF assms])

lemma get_mean_speed_zero:
  assumes "py_is_zero (duration r)"
  shows "division_hazard (get_mean_speed r)"
  using assms Training_get_mean_speed_zero [of r] Swimming_get_mean_speed_zero [of r]
  by (cases r) simp_all


lemma binop_Inr_Inl [simp]: "binop f (Inr a) (Inl e) = Inl e"
  by (simp add: binop_def)

lemma get_mean_speed_error:
  assumes "get_mean_speed r = Inl e"
  shows "e = ZeroDivisionError \<or> e = OverflowError"
proof (cases "\<exists>a d w lp cp. r = Swimming a d w lp cp")
  case True
  with assms have "Swimming_get_mean_speed r = Inl e" by auto
  then show ?thesis
    unfolding Swimming_get_mean_speed_unfold
    by (cases "py_mul (length_pool r) (count_pool r)";
        cases "bind_result (py_mul (length_pool r) (count_pool r)) (\<lambda>p. py_truediv p M_IN_KM)")
      (auto dest: py_mul_error py_truediv_error)
next
  case False
  with assms have "Training_get_mean_speed r = Inl e" by (cases r) auto
  then show ?thesis
    unfolding Training_get_mean_speed_def binop_Inr_right
    by (cases "get_distance r") (auto dest: get_distance_error py_truediv_error)
qed

lemma Running_get_spent_calories_raises:
  "get_mean_speed r = Inl e \<Longrightarrow> Running_get_spent_calories r = Inl e"
  by (simp add: Running_get_spent_calories_def)

lemma Swimming_get_spent_calories_raises:
  "get_mean_speed r = Inl e \<Longrightarrow> Swimming_get_spent_calories r = Inl e"
  by (simp add: Swimming_get_spent_calories_def)

lemma SportsWalking_get_spent_calories_raises:
  assumes "get_mean_speed r = Inl e"
  shows "SportsWalking_get_spent_calories r = Inl e \<or>
         SportsWalking_get_spent_calories r = Inl OverflowError"
  using assms
  by (cases "py_mul COEF_CALORIE_01 (weight r)")
    (auto simp add: SportsWalking_get_spent_calories_def dest: py_mul_error)

lemma SportsWalking_zero_height:
  assumes "py_is_zero (height r)"
  shows "division_hazard (SportsWalking_get_spent_calories r)"
proof (cases "py_mul COEF_CALORIE_01 (weight r)")
  case (Inl e)
  then show ?thesis
    by (auto simp add: SportsWalking_get_spent_calories_def division_hazard_def
        dest: py_mul_error)
next
  case t1: (Inr t)
  show ?thesis
  proof (cases "get_mean_speed r")
    case (Inl e)
    with get_mean_speed_error [OF Inl] show ?thesis
      by (auto simp add: SportsWalking_get_spent_calories_def division_hazard_def t1)
  next
    case s: (Inr s)
    show ?thesis
    proof (cases "py_pow2 s")
      case (Inl e)
      with py_pow2_error [OF Inl] show ?thesis
        by (simp add: SportsWalking_get_spent_calories_def division_hazard_def t1 s)
    next
      case p: (Inr p)
      from py_floordiv_by_zero [OF assms, of p]
      show ?thesis
        by (auto simp add: SportsWalking_get_spent_calories_def division_hazard_def t1 s p
            binop_Inr_right)
    qed
  qed
qed

text \<open>
  Claim C9, as amended. A record whose duration is zero never yields a mean speed or
  a calorie count: the division by the duration raises \<^verbatim>\<open>ZeroDivisionError\<close>, unless an
  earlier operation has raised \<^verbatim>\<open>OverflowError\<close> (an \<^verbatim>\<open>int\<close> too large for a float).
  The same holds for the calories of a \<^verbatim>\<open>SportsWalking\<close> record whose height is zero.
  The methods contain no test of the divisor.
\<close>

theorem zero_divisor_raises:
  "(py_is_zero d \<longrightarrow>
      division_hazard (get_mean_speed (Running a d w)) \<and>
      division_hazard (get_mean_speed (SportsWalking a d w h)) \<and>
      division_hazard (get_mean_speed (Swimming a d w lp cp)) \<and>
      division_hazard (get_spent_calories (Running a d w)) \<and>
      division_hazard (get_spent_calories (SportsWalking a d w h)) \<and>
      division_hazard (get_spent_calories (Swimming a d w lp cp))) \<and>
   (py_is_zero h \<longrightarrow> division_hazard (get_spent_calories (SportsWalking a d w h)))"
proof (intro conjI impI)
  assume d: "py_is_zero d"
  show r: "division_hazard (get_mean_speed (Running a d w))"
    and s: "division_hazard (get_mean_speed (SportsWalking a d w h))"
    and m: "division_hazard (get_mean_speed (Swimming a d w lp cp))"
    using d by (simp_all only: get_mean_speed_zero training.sel)
  show "division_hazard (get_spent_calories (Running a d w))"
    using r Running_get_spent_calories_raises [of "Running a d w"]
    by (auto simp add: division_hazard_def)
  show "division_hazard (get_spent_calories (SportsWalking a d w h))"
    using s SportsWalking_get_spent_calories_raises [of "SportsWalking a d w h"]
    by (auto simp add: division_hazard_def)
  show "division_hazard (get_spent_calories (Swimming a d w lp cp))"
    using m Swimming_get_spent_calories_raises [of "Swimming a d w lp cp"]
    by (auto simp add: division_hazard_def)
next
  assume "py_is_zero h"
  then show "division_hazard (get_spent_calories (SportsWalking a d w h))"
    using SportsWalking_zero_height [of "SportsWalking a d w h"] by simp
qed

section \<open>Properties of the dispatcher\<close>

lemma traning_types_SWM: "traning_types (ascii ''SWM'') = Some Swimming_init"
  by (simp add: traning_types_def ascii_def)

lemma traning_types_RUN: "traning_types (ascii ''RUN'') = Some Running_init"
  by (simp add: traning_types_def ascii_def)

lemma traning_types_WLK: "traning_types (ascii ''WLK'') = Some SportsWalking_init"
  by (simp add: traning_types_def ascii_def)

lemma traning_types_other:
  "workout_type \<notin> {ascii ''SWM'', ascii ''RUN'', ascii ''WLK''} \<longleftrightarrow>
     traning_types workout_type = None"
  by (auto simp add: traning_types_def)

lemma Running_init_arity:
  "Running_init data =
     (if length data = 3 then Inr (Running (data ! 0) (data ! 1) (data ! 2))
      else Inl TypeError)"
  by (cases data rule: Running_init.cases) simp_all

lemma SportsWalking_init_arity:
  "SportsWalking_init data =
     (if length data = 4
      then Inr (SportsWalking (data ! 0) (data ! 1) (data ! 2) (data ! 3))
      else Inl TypeError)"
  by (cases data rule: SportsWalking_init.cases) simp_all

lemma Swimming_init_arity:
  "Swimming_init data =
     (if length data = 5
      then Inr (Swimming (data ! 0) (data ! 1) (data ! 2) (data ! 3) (data ! 4))
      else Inl TypeError)"
  by (cases data rule: Swimming_init.cases) simp_all

text \<open>
  Claim C3. For every activity code other than \<^verbatim>\<open>"SWM"\<close>, \<^verbatim>\<open>"RUN"\<close> and \<^verbatim>\<open>"WLK"\<close>
  and for every sequence of raw values, \<^verbatim>\<open>read_package\<close> raises the unknown-activity
  error (\<^verbatim>\<open>KeyError("Workout not found")\<close>) and so returns no calculator.
\<close>

theorem read_package_unknown_code:
  assumes "workout_type \<notin> {ascii ''SWM'', ascii ''RUN'', ascii ''WLK''}"
  shows "read_package workout_type data = Inl (KeyError (ascii ''Workout not found''))"
  using assms traning_types_other [of workout_type] by (simp add: read_package_def)

theorem read_package_unknown_code_witness:
  "ascii ''XYZ'' \<notin> {ascii ''SWM'', ascii ''RUN'', ascii ''WLK''} \<and>
   read_package (ascii ''XYZ'') [PInt 1, PInt 2, PInt 3] =
     Inl (KeyError (ascii ''Workout not found''))"
proof -
  have h: "ascii ''XYZ'' \<notin> {ascii ''SWM'', ascii ''RUN'', ascii ''WLK''}"
    by (simp add: ascii_def)
  show ?thesis
    using h read_package_unknown_code [OF h, of "[PInt 1, PInt 2, PInt 3]"] by simp
qed

text \<open>
  Claim C4. For each recognised code, \<^verbatim>\<open>read_package\<close> binds the raw values by
  position to the fields of the variant (action, duration, weight, then height for
  \<^verbatim>\<open>"WLK"\<close>, or length\_pool and count\_pool for \<^verbatim>\<open>"SWM"\<close>); a sequence whose length
  is not the number of fields of the variant raises the invalid-record error
  (\<^verbatim>\<open>TypeError\<close>).
\<close>

theorem read_package_positional_binding:
  "read_package (ascii ''RUN'') data =
     (if length data = 3 then Inr (Running (data ! 0) (data ! 1) (data ! 2))
      else Inl TypeError) \<and>
   read_package (ascii ''WLK'') data =
     (if length data = 4
      then Inr (SportsWalking (data ! 0) (data ! 1) (data ! 2) (data ! 3))
      else Inl TypeError) \<and>
   read_package (ascii ''SWM'') data =
     (if length data = 5
      then Inr (Swimming (data ! 0) (data ! 1) (data ! 2) (data ! 3) (data ! 4))
      else Inl TypeError)"
  by (simp only: read_package_def traning_types_SWM traning_types_RUN traning_types_WLK
      option.case Running_init_arity SportsWalking_init_arity Swimming_init_arity simp_thms)

section \<open>Properties of the methods\<close>

text \<open>
  Claim C6. For a record of each variant, \<^verbatim>\<open>get_distance\<close> evaluates
  \<^verbatim>\<open>action * LEN_STEP / 1000\<close>, where the step length is the float \<^verbatim>\<open>0.65\<close> for
  \<^verbatim>\<open>Running\<close> and \<^verbatim>\<open>SportsWalking\<close> and the float \<^verbatim>\<open>1.38\<close> for \<^verbatim>\<open>Swimming\<close>.
\<close>

theorem get_distance_formula:
  "get_distance (Running a d w) =
     bind_result (py_mul a (PFloat (float_literal (65 / 100)))) (\<lambda>s. py_truediv s (PInt 1000)) \<and>
   get_distance (SportsWalking a d w h) =
     bind_result (py_mul a (PFloat (float_literal (65 / 100)))) (\<lambda>s. py_truediv s (PInt 1000)) \<and>
   get_distance (Swimming a d w lp cp) =
     bind_result (py_mul a (PFloat (float_literal (138 / 100)))) (\<lambda>s. py_truediv s (PInt 1000))"
  by (simp add: Training_get_distance_def Swimming_get_distance_def M_IN_KM_def binop_Inr_right)

text \<open>
  Claim C7. For a \<^verbatim>\<open>Swimming\<close> record, \<^verbatim>\<open>get_mean_speed\<close> evaluates
  \<^verbatim>\<open>length_pool * count_pool / 1000 / duration\<close>; the action and the step length do
  not occur in it, so two records that differ only in the action have the same mean
  speed.
\<close>

theorem swimming_mean_speed_formula:
  "get_mean_speed (Swimming a d w lp cp) =
     bind_result (py_mul lp cp) (\<lambda>p.
     bind_result (py_truediv p (PInt 1000)) (\<lambda>k. py_truediv k d)) \<and>
   get_mean_speed (Swimming a d w lp cp) = get_mean_speed (Swimming a' d w lp cp)"
  by (simp add: Swimming_get_mean_speed_def M_IN_KM_def binop_Inr_right bind_result_assoc)

lemma map_sum_Some_not_None: "map_sum id Some m \<noteq> Inr None"
  by (cases m) simp_all

text \<open>
  Claim C8. \<^verbatim>\<open>get_spent_calories\<close> of the base class has no formula and yields no
  number (its result is \<^verbatim>\<open>None\<close>); each of \<^verbatim>\<open>Running\<close>, \<^verbatim>\<open>SportsWalking\<close> and
  \<^verbatim>\<open>Swimming\<close> runs its own method, which never yields \<^verbatim>\<open>None\<close>.
\<close>

theorem base_get_spent_calories_none:
  "get_spent_calories (Training a d w) = Inr None \<and>
   get_spent_calories (Running a d w) = Running_get_spent_calories (Running a d w) \<and>
   get_spent_calories (Running a d w) \<noteq> Inr None \<and>
   get_spent_calories (SportsWalking a d w h) =
     SportsWalking_get_spent_calories (SportsWalking a d w h) \<and>
   get_spent_calories (SportsWalking a d w h) \<noteq> Inr None \<and>
   get_spent_calories (Swimming a d w lp cp) =
     Swimming_get_spent_calories (Swimming a d w lp cp) \<and>
   get_spent_calories (Swimming a d w lp cp) \<noteq> Inr None"
  by (simp add: Training_get_spent_calories_def Running_get_spent_calories_def
      SportsWalking_get_spent_calories_def Swimming_get_spent_calories_def
      map_sum_Some_not_None)


section \<open>Properties of the formatting\<close>

lemma decimal_digits_small: "n < 10 \<Longrightarrow> decimal_digits n = [48 + n]"
  by (simp add: decimal_digits.simps)

lemma decimal_digits_large:
  "\<not> n < 10 \<Longrightarrow> decimal_digits n = decimal_digits (n div 10) @ [48 + n mod 10]"
  by (subst decimal_digits.simps) simp

lemma decimal_digits_digits: "list_all is_digit (decimal_digits n)"
proof (induction n rule: decimal_digits.induct)
  case (1 n)
  show ?case
  proof (cases "n < 10")
    case True
    then show ?thesis by (simp add: decimal_digits_small is_digit_def)
  next
    case False
    have "n mod 10 < 10" by simp
    then have "is_digit (48 + n mod 10)" unfolding is_digit_def by linarith
    with False "1.IH" show ?thesis by (simp add: decimal_digits_large)
  qed
qed

lemma decimal_digits_not_Nil: "decimal_digits n \<noteq> []"
  by (cases "n < 10") (simp_all add: decimal_digits_small decimal_digits_large)

lemma list_all_butlast_last:
  "xs \<noteq> [] \<Longrightarrow> list_all P xs \<Longrightarrow> list_all P (butlast xs) \<and> P (last xs)"
  by (cases xs rule: rev_cases) auto

lemma fixed3_three_decimals: "three_decimals (fixed3 neg a)"
proof -
  let ?n = "nat (round_half_even (a * 1000))"
  let ?ds = "decimal_digits (?n div 1000)"
  have d: "\<And>k::nat. is_digit (48 + k mod 10)"
  proof -
    fix k :: nat
    have "k mod 10 < 10" by simp
    then show "is_digit (48 + k mod 10)" unfolding is_digit_def by linarith
  qed
  have all: "list_all is_digit ?ds" by (rule decimal_digits_digits)
  have ne: "?ds \<noteq> []" by (rule decimal_digits_not_Nil)
  have revne: "rev ?ds \<noteq> []" using ne by simp
  have allrev: "list_all is_digit (rev ?ds)" using all by (simp add: list_all_iff)
  show ?thesis
  proof (cases neg)
    case False
    have "list_all is_digit (butlast (rev ?ds))" "is_digit (last (rev ?ds))"
      using list_all_butlast_last [OF revne allrev] by simp_all
    with False revne show ?thesis
      by (simp add: three_decimals_def fixed3_def ascii_def Let_def d)
  next
    case True
    have "butlast (rev ?ds @ [45]) = rev ?ds" by simp
    with True allrev revne show ?thesis
      by (simp add: three_decimals_def fixed3_def ascii_def Let_def d)
  qed
qed

lemma double_to_string_three_decimals:
  "is_finite x \<Longrightarrow> three_decimals (double_to_string x)"
  by (cases x) (simp_all add: is_finite_def double_to_string_def fixed3_three_decimals)

section \<open>Evaluating float operations\<close>

lemmas rd_eval = pow2_def round_half_even_def floor_rat_eval

lemmas op_eval = float_mul_def float_div_def float_add_def float_sub_def as_double_def
  long_as_double_def long_true_divide_def fmul_def fdiv_def fadd_def fsub_def fneg_def
  is_nan_def is_inf_def is_zero_def valof_def signbit_def zero_of_def inf_of_def
  float_literal_def Let_def

lemma round_half_even_nonneg: "0 \<le> x \<Longrightarrow> 0 \<le> round_half_even x"
  using round_half_even_ge [of 0 x] by simp

lemma round_double_pos_signbit:
  assumes "0 < x"
  shows "\<not> signbit (round_double x)"
proof -
  let ?e = "max (ilog2 \<bar>x\<bar>) (- 1022)"
  let ?r = "of_int (round_half_even (\<bar>x\<bar> / pow2 (?e - 52))) * pow2 (?e - 52)"
  have "0 \<le> \<bar>x\<bar> / pow2 (?e - 52)" using pow2_pos [of "?e - 52"] by simp
  then have "0 \<le> round_half_even (\<bar>x\<bar> / pow2 (?e - 52))" by (rule round_half_even_nonneg)
  then have "0 \<le> ?r" using pow2_pos [of "?e - 52"] by simp
  then have r: "\<not> ?r < 0" by simp
  have x: "\<not> x < 0" "x \<noteq> 0" using assms by simp_all
  show ?thesis
    unfolding round_double_def Let_def
    by (simp only: x r if_False signbit_def double.case split: if_split) simp
qed

lemma float_div_mod_small:
  assumes "0 < x" "x < y"
  shows "float_div_mod (Fin x) (Fin y) = Fin 0"
proof -
  have y: "0 < y" using assms by simp
  have q: "0 < x / y" "x / y < 1" using assms y by simp_all
  then have "\<lfloor>x / y\<rfloor> = 0" by (simp add: floor_eq_iff)
  then have t: "trunc (x / y) = 0" using q by (simp add: trunc_def)
  have m: "c_fmod (Fin x) (Fin y) = Fin x"
    using assms y by (simp add: c_fmod_def is_nan_def is_inf_def is_zero_def valof_def t)
  have s: "fsub (Fin x) (Fin x) = Fin 0"
    using assms by (simp add: fsub_def fneg_def fadd_def is_nan_def is_inf_def is_zero_def valof_def)
  have d: "fdiv (Fin 0) (Fin y) = Fin 0"
    using y by (simp add: fdiv_def is_nan_def is_inf_def is_zero_def zero_of_def signbit_def)
  have f: "flt (Fin y) (Fin 0) = False" "flt (Fin x) (Fin 0) = False"
    using assms y by (simp_all add: flt_def is_nan_def valof_def)
  have v: "fdiv (Fin x) (Fin y) = round_double (x / y)"
    using assms y by (simp add: fdiv_def is_nan_def is_inf_def is_zero_def valof_def)
  have c: "c_copysign (Fin 0) (round_double (x / y)) = Fin 0"
    using round_double_pos_signbit [OF q(1)] by (simp add: c_copysign_def signbit_def)
  show ?thesis
    by (simp add: float_div_mod_def m s d f v c is_zero_def)
qed

lemma py_floordiv_small:
  assumes "0 < x" "x < y"
  shows "py_floordiv (PFloat (Fin x)) (PFloat (Fin y)) = Inr (PFloat (Fin 0))"
  using assms float_div_mod_small [OF assms]
  by (simp add: float_floor_div_def as_double_def is_zero_def)

section \<open>The swimming scenario\<close>

lemma swm_distance:
  "get_distance (Swimming (PInt 720) (PInt 1) (PInt 80) (PInt 25) (PInt 40)) =
     Inr (PFloat (Fin (8949553179510649 / 9007199254740992)))"
  by (simp add: Swimming_get_distance_def M_IN_KM_def op_eval rd_eval
      round_double_normal [where e = 0] round_double_normal [where e = 9]
      round_double_normal [where e = "- 1"])

lemma swm_speed:
  "get_mean_speed (Swimming (PInt 720) (PInt 1) (PInt 80) (PInt 25) (PInt 40)) =
     Inr (PFloat (Fin 1))"
  by (simp add: Swimming_get_mean_speed_def M_IN_KM_def op_eval rd_eval
      round_double_normal [where e = 0])

lemma swm_calories:
  "get_spent_calories (Swimming (PInt 720) (PInt 1) (PInt 80) (PInt 25) (PInt 40)) =
     Inr (Some (PFloat (Fin 336)))"
  by (simp add: Swimming_get_spent_calories_def swm_speed COEF_CALORIE_001_def
      COEF_CALORIE_002_def op_eval rd_eval
      round_double_normal [where e = 0] round_double_normal [where e = 1]
      round_double_normal [where e = 2] round_double_normal [where e = 6]
      round_double_normal [where e = 8] del: get_mean_speed.simps)

lemma literal_09936:
  "float_literal (9936 / 10000) = Fin (4474776589755325 / 4503599627370496)"
  by (simp add: float_literal_def rd_eval round_double_normal [where e = "- 1"])

text \<open>
  Claim C1, as amended. For the code \<^verbatim>\<open>"SWM"\<close> and the values
  \<^verbatim>\<open>[720, 1, 80, 25, 40]\<close>, \<^verbatim>\<open>read_package\<close> returns the \<^verbatim>\<open>Swimming\<close> record built
  from these five values in order. Its mean speed is the float \<^verbatim>\<open>1.0\<close> and its calories
  are the float \<^verbatim>\<open>336.0\<close>. Its distance is the float
  \<open>8949553179510649 / 2^53\<close>, printed by Python as \<^verbatim>\<open>0.9935999999999999\<close>: the float
  next below the float \<^verbatim>\<open>0.9936\<close>, which is \<open>2^-53\<close> larger.
\<close>

theorem swimming_scenario:
  "read_package (ascii ''SWM'') [PInt 720, PInt 1, PInt 80, PInt 25, PInt 40] =
     Inr (Swimming (PInt 720) (PInt 1) (PInt 80) (PInt 25) (PInt 40)) \<and>
   get_distance (Swimming (PInt 720) (PInt 1) (PInt 80) (PInt 25) (PInt 40)) =
     Inr (PFloat (Fin (8949553179510649 / 9007199254740992))) \<and>
   float_literal (9936 / 10000) = Fin (8949553179510649 / 9007199254740992 + 1 / 2 ^ 53) \<and>
   get_mean_speed (Swimming (PInt 720) (PInt 1) (PInt 80) (PInt 25) (PInt 40)) =
     Inr (PFloat (Fin 1)) \<and>
   get_spent_calories (Swimming (PInt 720) (PInt 1) (PInt 80) (PInt 25) (PInt 40)) =
     Inr (Some (PFloat (Fin 336)))"
  using literal_09936
  by (simp add: read_package_def traning_types_SWM swm_distance swm_speed swm_calories
      del: get_distance.simps get_mean_speed.simps get_spent_calories.simps)

text \<open>
  The distance of that record is neither the decimal number \<open>0.9936\<close> nor the float
  \<^verbatim>\<open>0.9936\<close>, as claim C1 states it.
\<close>

theorem swimming_scenario_counterexample:
  "get_distance (Swimming (PInt 720) (PInt 1) (PInt 80) (PInt 25) (PInt 40)) \<noteq>
     Inr (PFloat (Fin (9936 / 10000))) \<and>
   get_distance (Swimming (PInt 720) (PInt 1) (PInt 80) (PInt 25) (PInt 40)) \<noteq>
     Inr (PFloat (float_literal (9936 / 10000)))"
  using literal_09936 by (simp add: swm_distance del: get_distance.simps)

section \<open>The walking scenario\<close>

lemma wlk_speed:
  "get_mean_speed (SportsWalking (PInt 9000) (PInt 1) (PInt 75) (PInt 180)) =
     Inr (PFloat (Fin (3293257227514675 / 562949953421312)))"
  by (simp add: Training_get_mean_speed_def Training_get_distance_def M_IN_KM_def
      op_eval rd_eval
      round_double_normal [where e = "- 1"] round_double_normal [where e = 0]
      round_double_normal [where e = 2] round_double_normal [where e = 9]
      round_double_normal [where e = 12] round_double_normal [where e = 13])

lemma wlk_square:
  "py_pow2 (PFloat (Fin (3293257227514675 / 562949953421312))) =
     Inr (PFloat (Fin (1204097173810053 / 35184372088832)))"
  by (simp add: float_pow2_def flt_def op_eval rd_eval round_double_normal [where e = 5])

lemma wlk_floordiv:
  "py_floordiv (PFloat (Fin (1204097173810053 / 35184372088832))) (PInt 180) =
     Inr (PFloat (Fin 0))"
proof -
  have "float_div_mod (Fin (1204097173810053 / 35184372088832)) (Fin 180) = Fin 0"
    by (rule float_div_mod_small) simp_all
  then show ?thesis
    by (simp add: float_floor_div_def op_eval rd_eval round_double_normal [where e = 7])
qed

lemma wlk_truediv:
  "py_truediv (PFloat (Fin (1204097173810053 / 35184372088832))) (PInt 180) =
     Inr (PFloat (Fin (1712493758307631 / 9007199254740992)))"
  by (simp add: op_eval rd_eval round_double_normal [where e = 7]
      round_double_normal [where e = "- 3"])

lemma wlk_calories:
  "get_spent_calories (SportsWalking (PInt 9000) (PInt 1) (PInt 75) (PInt 180)) =
     Inr (Some (PFloat (Fin (5541538603991041 / 35184372088832))))"
  by (simp add: SportsWalking_get_spent_calories_def wlk_speed wlk_square wlk_floordiv
      COEF_CALORIE_01_def COEF_CALORIE_02_def HOUR_def op_eval rd_eval
      round_double_normal [where e = "- 5"] round_double_normal [where e = "- 6"]
      round_double_normal [where e = 0] round_double_normal [where e = 1]
      round_double_normal [where e = 5] round_double_normal [where e = 6]
      round_double_normal [where e = 7]
      del: get_mean_speed.simps py_pow2.simps py_floordiv.simps)

section \<open>Records with a zero divisor\<close>

text \<open>A record with a zero duration and a zero height, for claim C9.\<close>

theorem zero_divisor_raises_witness:
  "py_is_zero (PInt 0) \<and>
   division_hazard (get_mean_speed (Running (PInt 9000) (PInt 0) (PInt 75))) \<and>
   division_hazard (get_mean_speed (SportsWalking (PInt 9000) (PInt 0) (PInt 75) (PInt 0))) \<and>
   division_hazard
     (get_mean_speed (Swimming (PInt 9000) (PInt 0) (PInt 75) (PInt 25) (PInt 40))) \<and>
   division_hazard (get_spent_calories (Running (PInt 9000) (PInt 0) (PInt 75))) \<and>
   division_hazard
     (get_spent_calories (SportsWalking (PInt 9000) (PInt 0) (PInt 75) (PInt 0))) \<and>
   division_hazard
     (get_spent_calories (Swimming (PInt 9000) (PInt 0) (PInt 75) (PInt 25) (PInt 40)))"
proof -
  have z: "py_is_zero (PInt 0)" by (simp add: py_is_zero_def)
  show ?thesis
    using z zero_divisor_raises [where d = "PInt 0" and a = "PInt 9000" and w = "PInt 75"
        and h = "PInt 0" and lp = "PInt 25" and cp = "PInt 40"]
    by blast
qed

text \<open>
  Claim C9 as stated fails on a \<^verbatim>\<open>Running\<close> record whose action is the \<^verbatim>\<open>int\<close>
  \<open>2^1024\<close> and whose duration is zero: the product \<^verbatim>\<open>action * LEN_STEP\<close> raises
  \<^verbatim>\<open>OverflowError\<close>, and no division by zero takes place.
\<close>

lemma overflow_action:
  "get_mean_speed (Running (PInt (2 ^ 1024)) (PInt 0) (PInt 75)) = Inl OverflowError"
  by (simp add: Training_get_mean_speed_def Training_get_distance_def float_mul_def
      as_double_def long_as_double_def round_double_overflow pow2_def inf_of_def is_inf_def)

theorem zero_duration_counterexample:
  "py_is_zero (duration (Running (PInt (2 ^ 1024)) (PInt 0) (PInt 75))) \<and>
   get_mean_speed (Running (PInt (2 ^ 1024)) (PInt 0) (PInt 75)) \<noteq> Inl ZeroDivisionError \<and>
   get_spent_calories (Running (PInt (2 ^ 1024)) (PInt 0) (PInt 75)) \<noteq>
     Inl ZeroDivisionError"
  using overflow_action
    Running_get_spent_calories_raises [OF overflow_action]
  by (simp add: py_is_zero_def del: get_mean_speed.simps)

lemma map_sum_Some_bind: "map_sum id Some m = bind_result m (\<lambda>r. Inr (Some r))"
  by (cases m) simp_all

lemma walking_calories_unfold:
  "get_spent_calories (SportsWalking a d w h) =
     bind_result (py_mul (PFloat (float_literal (35 / 1000))) w) (\<lambda>t1.
     bind_result (get_mean_speed (SportsWalking a d w h)) (\<lambda>s.
     bind_result (py_pow2 s) (\<lambda>p.
     bind_result (py_floordiv p h) (\<lambda>f.
     bind_result (py_mul f (PFloat (float_literal (29 / 1000)))) (\<lambda>g.
     bind_result (py_mul g w) (\<lambda>t2.
     bind_result (py_add t1 t2) (\<lambda>u.
     bind_result (py_mul u d) (\<lambda>v.
     bind_result (py_mul v (PInt 60)) (\<lambda>r. Inr (Some r))))))))))"
  by (simp add: SportsWalking_get_spent_calories_def COEF_CALORIE_01_def COEF_CALORIE_02_def
      HOUR_def map_sum_Some_bind binop_def bind_result_assoc
      del: get_mean_speed.simps py_mul.simps py_add.simps py_floordiv.simps py_pow2.simps)

lemma literal_1575: "float_literal (1575 / 10) = Fin (315 / 2)"
  by (simp add: float_literal_def rd_eval round_double_normal [where e = 7])

text \<open>
  Claim C2, as amended. \<^verbatim>\<open>get_spent_calories\<close> of a \<^verbatim>\<open>SportsWalking\<close> record evaluates
  \<^verbatim>\<open>(0.035 * weight + (mean_speed ** 2 // height) * 0.029 * weight) * duration * 60\<close>
  with the floor division \<^verbatim>\<open>//\<close>: whenever the dividend is positive and smaller than
  the divisor the quotient is \<^verbatim>\<open>0.0\<close>. For the record (9000, 1, 75, 180) the mean speed
  is the float \<^verbatim>\<open>5.85\<close>, its square the float \<^verbatim>\<open>34.2225\<close>, the floor quotient by 180 is
  \<^verbatim>\<open>0.0\<close> where the true quotient is \<^verbatim>\<open>0.190125\<close>, and the result is the float
  \<open>157.5 + 2^-45\<close>, printed by Python as \<^verbatim>\<open>157.50000000000003\<close>, because the product
  \<^verbatim>\<open>0.035 * 75\<close> is rounded up to \<^verbatim>\<open>2.6250000000000004\<close>.
\<close>

theorem walking_calories:
  "get_spent_calories (SportsWalking a d w h) =
     bind_result (py_mul (PFloat (float_literal (35 / 1000))) w) (\<lambda>t1.
     bind_result (get_mean_speed (SportsWalking a d w h)) (\<lambda>s.
     bind_result (py_pow2 s) (\<lambda>p.
     bind_result (py_floordiv p h) (\<lambda>f.
     bind_result (py_mul f (PFloat (float_literal (29 / 1000)))) (\<lambda>g.
     bind_result (py_mul g w) (\<lambda>t2.
     bind_result (py_add t1 t2) (\<lambda>u.
     bind_result (py_mul u d) (\<lambda>v.
     bind_result (py_mul v (PInt 60)) (\<lambda>r. Inr (Some r)))))))))) \<and>
   (0 < x \<and> x < y \<longrightarrow>
      py_floordiv (PFloat (Fin x)) (PFloat (Fin y)) = Inr (PFloat (Fin 0))) \<and>
   get_mean_speed (SportsWalking (PInt 9000) (PInt 1) (PInt 75) (PInt 180)) =
     Inr (PFloat (Fin (3293257227514675 / 562949953421312))) \<and>
   py_pow2 (PFloat (Fin (3293257227514675 / 562949953421312))) =
     Inr (PFloat (Fin (1204097173810053 / 35184372088832))) \<and>
   py_floordiv (PFloat (Fin (1204097173810053 / 35184372088832))) (PInt 180) =
     Inr (PFloat (Fin 0)) \<and>
   py_truediv (PFloat (Fin (1204097173810053 / 35184372088832))) (PInt 180) =
     Inr (PFloat (Fin (1712493758307631 / 9007199254740992))) \<and>
   get_spent_calories (SportsWalking (PInt 9000) (PInt 1) (PInt 75) (PInt 180)) =
     Inr (Some (PFloat (Fin (315 / 2 + 1 / 2 ^ 45))))"
proof (intro conjI impI)
  assume "0 < x \<and> x < y"
  then show "py_floordiv (PFloat (Fin x)) (PFloat (Fin y)) = Inr (PFloat (Fin 0))"
    by (simp add: py_floordiv_small del: py_floordiv.simps)
next
  show "get_spent_calories (SportsWalking (PInt 9000) (PInt 1) (PInt 75) (PInt 180)) =
     Inr (Some (PFloat (Fin (315 / 2 + 1 / 2 ^ 45))))"
    using wlk_calories by (simp del: get_spent_calories.simps)
qed (rule walking_calories_unfold wlk_speed wlk_square wlk_floordiv wlk_truediv)+

text \<open>The square of the mean speed of that record lies between 0 and its height.\<close>

theorem walking_calories_witness:
  "(0::rat) < 1204097173810053 / 35184372088832 \<and>
   (1204097173810053 / 35184372088832 :: rat) < 180 \<and>
   py_floordiv (PFloat (Fin (1204097173810053 / 35184372088832))) (PFloat (Fin 180)) =
     Inr (PFloat (Fin 0))"
  using walking_calories [where x = "1204097173810053 / 35184372088832" and y = 180]
  by simp

text \<open>The calories of that record are not \<open>157.5\<close>, as claim C2 states them.\<close>

theorem walking_calories_counterexample:
  "get_spent_calories (SportsWalking (PInt 9000) (PInt 1) (PInt 75) (PInt 180)) \<noteq>
     Inr (Some (PFloat (Fin (1575 / 10)))) \<and>
   get_spent_calories (SportsWalking (PInt 9000) (PInt 1) (PInt 75) (PInt 180)) \<noteq>
     Inr (Some (PFloat (float_literal (1575 / 10))))"
  using literal_1575 by (simp add: wlk_calories del: get_spent_calories.simps)

section \<open>The message\<close>

lemmas fmt_eval = double_to_string_def fixed3_def round_half_even_def floor_rat_eval
  decimal_digits_small decimal_digits_large ascii_def Let_def

lemma get_message_formed:
  assumes "as_double (duration_of m) = Inr x1" and "as_double (distance m) = Inr x2"
    and "as_double (speed m) = Inr x3" and "calories m = Some c" and "as_double c = Inr x4"
  shows "get_message m =
    Inr (MESSAGE_0 @ training_type m @ MESSAGE_1 @ double_to_string x1 @
         MESSAGE_2 @ double_to_string x2 @ MESSAGE_3 @ double_to_string x3 @
         MESSAGE_4 @ double_to_string x4 @ MESSAGE_5)"
  by (simp add: get_message_def format_3f_def assms)

lemma string_1: "double_to_string (Fin 1) = ascii ''1.000''"
  by (simp add: fmt_eval)

lemma string_swm_distance:
  "double_to_string (Fin (8949553179510649 / 9007199254740992)) = ascii ''0.994''"
  by (simp add: fmt_eval)

lemma string_336: "double_to_string (Fin 336) = ascii ''336.000''"
  by (simp add: fmt_eval)

lemma as_double_1: "as_double (PInt 1) = Inr (Fin 1)"
  by (simp add: op_eval rd_eval round_double_normal [where e = 0])

lemma swm_message:
  "get_message
     (InfoMessage (ascii ''Swimming'') (PInt 1)
        (PFloat (Fin (8949553179510649 / 9007199254740992))) (PFloat (Fin 1))
        (Some (PFloat (Fin 336)))) =
     Inr (MESSAGE_0 @ ascii ''Swimming'' @ MESSAGE_1 @ ascii ''1.000'' @
          MESSAGE_2 @ ascii ''0.994'' @ MESSAGE_3 @ ascii ''1.000'' @
          MESSAGE_4 @ ascii ''336.000'' @ MESSAGE_5)"
proof -
  have "format_3f (Some (PInt 1)) = Inr (ascii ''1.000'')"
    by (simp add: format_3f_def as_double_1 string_1)
  moreover have "format_3f (Some (PFloat (Fin (8949553179510649 / 9007199254740992)))) =
      Inr (ascii ''0.994'')"
    by (simp add: format_3f_def as_double_def string_swm_distance)
  moreover have "format_3f (Some (PFloat (Fin 1))) = Inr (ascii ''1.000'')"
    by (simp add: format_3f_def as_double_def string_1)
  moreover have "format_3f (Some (PFloat (Fin 336))) = Inr (ascii ''336.000'')"
    by (simp add: format_3f_def as_double_def string_336)
  ultimately show ?thesis
    by (simp add: get_message_def)
qed

text \<open>
  Claim C5, as amended. When the four numeric fields of a message convert to floats,
  \<^verbatim>\<open>get_message\<close> returns the template with its fields filled in: the label for the
  training type, the name, then for the duration, the distance, the mean speed and the
  calories the label and the number in the format \<^verbatim>\<open>.3f\<close>, and a final full stop. The
  labels are the Russian texts of \<^verbatim>\<open>MESSAGE\<close>, not English ones. Every finite float is
  rendered with exactly three digits after the point.
\<close>

theorem get_message_template:
  assumes "as_double (duration_of m) = Inr x1" and "as_double (distance m) = Inr x2"
    and "as_double (speed m) = Inr x3" and "calories m = Some c" and "as_double c = Inr x4"
  shows "get_message m =
    Inr (MESSAGE_0 @ training_type m @ MESSAGE_1 @ double_to_string x1 @
         MESSAGE_2 @ double_to_string x2 @ MESSAGE_3 @ double_to_string x3 @
         MESSAGE_4 @ double_to_string x4 @ MESSAGE_5) \<and>
    (\<forall>x. is_finite x \<longrightarrow> three_decimals (double_to_string x))"
  using get_message_formed [OF assms] double_to_string_three_decimals by simp

text \<open>The message of the swimming scenario, for claim C5.\<close>

theorem get_message_template_witness:
  "as_double (PInt 1) = Inr (Fin 1) \<and>
   as_double (PFloat (Fin (8949553179510649 / 9007199254740992))) =
     Inr (Fin (8949553179510649 / 9007199254740992)) \<and>
   as_double (PFloat (Fin 1)) = Inr (Fin 1) \<and>
   as_double (PFloat (Fin 336)) = Inr (Fin 336) \<and>
   get_message
     (InfoMessage (ascii ''Swimming'') (PInt 1)
        (PFloat (Fin (8949553179510649 / 9007199254740992))) (PFloat (Fin 1))
        (Some (PFloat (Fin 336)))) =
     Inr (MESSAGE_0 @ ascii ''Swimming'' @ MESSAGE_1 @ ascii ''1.000'' @
          MESSAGE_2 @ ascii ''0.994'' @ MESSAGE_3 @ ascii ''1.000'' @
          MESSAGE_4 @ ascii ''336.000'' @ MESSAGE_5) \<and>
   is_finite (Fin 336) \<and> three_decimals (ascii ''336.000'')"
proof -
  let ?m = "InfoMessage (ascii ''Swimming'') (PInt 1)
        (PFloat (Fin (8949553179510649 / 9007199254740992))) (PFloat (Fin 1))
        (Some (PFloat (Fin 336)))"
  have a: "as_double (duration_of ?m) = Inr (Fin 1)"
    "as_double (distance ?m) = Inr (Fin (8949553179510649 / 9007199254740992))"
    "as_double (speed ?m) = Inr (Fin 1)"
    "calories ?m = Some (PFloat (Fin 336))"
    "as_double (PFloat (Fin 336)) = Inr (Fin 336)"
    by (simp_all add: as_double_1) (simp_all add: as_double_def)
  have f: "is_finite (Fin 336)" by (simp add: is_finite_def)
  from get_message_template [OF a]
  have "get_message ?m =
      Inr (MESSAGE_0 @ ascii ''Swimming'' @ MESSAGE_1 @ ascii ''1.000'' @
          MESSAGE_2 @ ascii ''0.994'' @ MESSAGE_3 @ ascii ''1.000'' @
          MESSAGE_4 @ ascii ''336.000'' @ MESSAGE_5)"
    and "three_decimals (ascii ''336.000'')"
    using f by (simp_all add: string_1 string_swm_distance string_336 [symmetric])
  then show ?thesis using a f by (simp add: as_double_def)
qed

text \<open>
  The message of the swimming scenario is not the English sentence of claim C5, and an
  infinite field is rendered as \<^verbatim>\<open>inf\<close>, with no digit after a point.
\<close>

theorem get_message_template_counterexample:
  "get_message
     (InfoMessage (ascii ''Swimming'') (PInt 1)
        (PFloat (Fin (8949553179510649 / 9007199254740992))) (PFloat (Fin 1))
        (Some (PFloat (Fin 336)))) \<noteq>
     Inr (ascii (''Activity type: Swimming; Duration: 1.000 h.; Distance: 0.994 km; '' @
                 ''Avg. speed: 1.000 km/h; Calories burned: 336.000.'')) \<and>
   format_3f (Some (PFloat PInf)) = Inr (ascii ''inf'') \<and>
   \<not> three_decimals (ascii ''inf'')"
proof -
  let ?m = "InfoMessage (ascii ''Swimming'') (PInt 1)
        (PFloat (Fin (8949553179510649 / 9007199254740992))) (PFloat (Fin 1))
        (Some (PFloat (Fin 336)))"
  have "get_message ?m =
      Inr (MESSAGE_0 @ ascii ''Swimming'' @ MESSAGE_1 @ ascii ''1.000'' @
          MESSAGE_2 @ ascii ''0.994'' @ MESSAGE_3 @ ascii ''1.000'' @
          MESSAGE_4 @ ascii ''336.000'' @ MESSAGE_5)"
    by (rule swm_message)
  then show ?thesis
    by (simp add: MESSAGE_0_def ascii_def format_3f_def as_double_def double_to_string_def
        three_decimals_def)
qed


section \<open>The report of each package\<close>

lemma run_speed:
  "get_mean_speed (Running (PInt 15000) (PInt 1) (PInt 75)) = Inr (PFloat (Fin (39 / 4)))"
  by (simp add: Training_get_mean_speed_def Training_get_distance_def M_IN_KM_def
      op_eval rd_eval
      round_double_normal [where e = "- 1"] round_double_normal [where e = 0]
      round_double_normal [where e = 3] round_double_normal [where e = 9]
      round_double_normal [where e = 13])

lemma run_distance:
  "get_distance (Running (PInt 15000) (PInt 1) (PInt 75)) = Inr (PFloat (Fin (39 / 4)))"
  by (simp add: Training_get_distance_def M_IN_KM_def op_eval rd_eval
      round_double_normal [where e = "- 1"]
      round_double_normal [where e = 3] round_double_normal [where e = 9]
      round_double_normal [where e = 13])

lemma run_calories:
  "get_spent_calories (Running (PInt 15000) (PInt 1) (PInt 75)) =
     Inr (Some (PFloat (Fin (2799 / 4))))"
  by (simp add: Running_get_spent_calories_def run_speed COEF_CALORIE_1_def
      COEF_CALORIE_2_def M_IN_KM_def HOUR_def op_eval rd_eval
      round_double_normal [where e = 0] round_double_normal [where e = 3]
      round_double_normal [where e = 4] round_double_normal [where e = 5]
      round_double_normal [where e = 6] round_double_normal [where e = 7]
      round_double_normal [where e = 9] round_double_normal [where e = 13]
      del: get_mean_speed.simps)

lemma wlk_distance:
  "get_distance (SportsWalking (PInt 9000) (PInt 1) (PInt 75) (PInt 180)) =
     Inr (PFloat (Fin (3293257227514675 / 562949953421312)))"
  by (simp add: Training_get_distance_def M_IN_KM_def op_eval rd_eval
      round_double_normal [where e = "- 1"]
      round_double_normal [where e = 2] round_double_normal [where e = 9]
      round_double_normal [where e = 12] round_double_normal [where e = 13])

lemma swm_info:
  "show_training_info (Swimming (PInt 720) (PInt 1) (PInt 80) (PInt 25) (PInt 40)) =
     Inr (InfoMessage (ascii ''Swimming'') (PInt 1)
        (PFloat (Fin (8949553179510649 / 9007199254740992))) (PFloat (Fin 1))
        (Some (PFloat (Fin 336))))"
  by (simp add: show_training_info_def swm_distance swm_speed swm_calories
      del: get_distance.simps get_mean_speed.simps get_spent_calories.simps)

lemma run_info:
  "show_training_info (Running (PInt 15000) (PInt 1) (PInt 75)) =
     Inr (InfoMessage (ascii ''Running'') (PInt 1) (PFloat (Fin (39 / 4)))
        (PFloat (Fin (39 / 4))) (Some (PFloat (Fin (2799 / 4)))))"
  by (simp add: show_training_info_def run_distance run_speed run_calories
      del: get_distance.simps get_mean_speed.simps get_spent_calories.simps)

lemma wlk_info:
  "show_training_info (SportsWalking (PInt 9000) (PInt 1) (PInt 75) (PInt 180)) =
     Inr (InfoMessage (ascii ''SportsWalking'') (PInt 1)
        (PFloat (Fin (3293257227514675 / 562949953421312)))
        (PFloat (Fin (3293257227514675 / 562949953421312)))
        (Some (PFloat (Fin (5541538603991041 / 35184372088832)))))"
  by (simp add: show_training_info_def wlk_distance wlk_speed wlk_calories
      del: get_distance.simps get_mean_speed.simps get_spent_calories.simps)

lemma show_training_info_name:
  "show_training_info t = Inr m \<Longrightarrow> training_type m = class_name t"
  by (cases "get_distance t"; cases "get_mean_speed t"; cases "get_spent_calories t")
    (auto simp add: show_training_info_def)

lemma get_message_shape:
  assumes "get_message m = Inr s"
  shows "\<exists>rest. s = MESSAGE_0 @ training_type m @ MESSAGE_1 @ rest"
  using assms
  by (cases "format_3f (Some (duration_of m))"; cases "format_3f (Some (distance m))";
      cases "format_3f (Some (speed m))"; cases "format_3f (calories m)")
    (auto simp add: get_message_def)

text \<open>
  Claim C10. The name in the report is the name of the class of the record:
  \<^verbatim>\<open>"Swimming"\<close> for the code \<^verbatim>\<open>"SWM"\<close>, \<^verbatim>\<open>"Running"\<close> for \<^verbatim>\<open>"RUN"\<close> and
  \<^verbatim>\<open>"SportsWalking"\<close>, not \<^verbatim>\<open>"RaceWalking"\<close>, for \<^verbatim>\<open>"WLK"\<close>; the message shows this
  name right after its first label.
\<close>

theorem report_names_class:
  "(read_package (ascii ''SWM'') data = Inr t \<and> show_training_info t = Inr m \<longrightarrow>
      training_type m = ascii ''Swimming'') \<and>
   (read_package (ascii ''RUN'') data = Inr t \<and> show_training_info t = Inr m \<longrightarrow>
      training_type m = ascii ''Running'') \<and>
   (read_package (ascii ''WLK'') data = Inr t \<and> show_training_info t = Inr m \<longrightarrow>
      training_type m = ascii ''SportsWalking'') \<and>
   ascii ''SportsWalking'' \<noteq> ascii ''RaceWalking'' \<and>
   (get_message m = Inr s \<longrightarrow>
      (\<exists>rest. s = MESSAGE_0 @ training_type m @ MESSAGE_1 @ rest))"
proof (intro conjI impI)
  assume "read_package (ascii ''SWM'') data = Inr t \<and> show_training_info t = Inr m"
  then have "Swimming_init data = Inr t" "training_type m = class_name t"
    by (simp_all add: read_package_def traning_types_SWM show_training_info_name)
  then show "training_type m = ascii ''Swimming''"
    by (auto simp add: Swimming_init_arity split: if_splits)
next
  assume "read_package (ascii ''RUN'') data = Inr t \<and> show_training_info t = Inr m"
  then have "Running_init data = Inr t" "training_type m = class_name t"
    by (simp_all add: read_package_def traning_types_RUN show_training_info_name)
  then show "training_type m = ascii ''Running''"
    by (auto simp add: Running_init_arity split: if_splits)
next
  assume "read_package (ascii ''WLK'') data = Inr t \<and> show_training_info t = Inr m"
  then have "SportsWalking_init data = Inr t" "training_type m = class_name t"
    by (simp_all add: read_package_def traning_types_WLK show_training_info_name)
  then show "training_type m = ascii ''SportsWalking''"
    by (auto simp add: SportsWalking_init_arity split: if_splits)
next
  show "ascii ''SportsWalking'' \<noteq> ascii ''RaceWalking''"
    by (simp add: ascii_def)
next
  assume "get_message m = Inr s"
  then show "\<exists>rest. s = MESSAGE_0 @ training_type m @ MESSAGE_1 @ rest"
    by (rule get_message_shape)
qed


lemma string_run:
  "double_to_string (Fin (39 / 4)) = ascii ''9.750''"
  "double_to_string (Fin (2799 / 4)) = ascii ''699.750''"
  by (simp_all add: fmt_eval)

lemma string_wlk:
  "double_to_string (Fin (3293257227514675 / 562949953421312)) = ascii ''5.850''"
  "double_to_string (Fin (5541538603991041 / 35184372088832)) = ascii ''157.500''"
  by (simp_all add: fmt_eval)

lemma run_message:
  "get_message
     (InfoMessage (ascii ''Running'') (PInt 1) (PFloat (Fin (39 / 4)))
        (PFloat (Fin (39 / 4))) (Some (PFloat (Fin (2799 / 4))))) =
     Inr (MESSAGE_0 @ ascii ''Running'' @ MESSAGE_1 @ ascii ''1.000'' @
          MESSAGE_2 @ ascii ''9.750'' @ MESSAGE_3 @ ascii ''9.750'' @
          MESSAGE_4 @ ascii ''699.750'' @ MESSAGE_5)"
proof -
  have "format_3f (Some (PInt 1)) = Inr (ascii ''1.000'')"
    by (simp add: format_3f_def as_double_1 string_1)
  moreover have "format_3f (Some (PFloat (Fin (39 / 4)))) = Inr (ascii ''9.750'')"
    by (simp add: format_3f_def as_double_def string_run)
  moreover have "format_3f (Some (PFloat (Fin (2799 / 4)))) = Inr (ascii ''699.750'')"
    by (simp add: format_3f_def as_double_def string_run)
  ultimately show ?thesis
    by (simp add: get_message_def)
qed

lemma wlk_message:
  "get_message
     (InfoMessage (ascii ''SportsWalking'') (PInt 1)
        (PFloat (Fin (3293257227514675 / 562949953421312)))
        (PFloat (Fin (3293257227514675 / 562949953421312)))
        (Some (PFloat (Fin (5541538603991041 / 35184372088832))))) =
     Inr (MESSAGE_0 @ ascii ''SportsWalking'' @ MESSAGE_1 @ ascii ''1.000'' @
          MESSAGE_2 @ ascii ''5.850'' @ MESSAGE_3 @ ascii ''5.850'' @
          MESSAGE_4 @ ascii ''157.500'' @ MESSAGE_5)"
proof -
  have "format_3f (Some (PInt 1)) = Inr (ascii ''1.000'')"
    by (simp add: format_3f_def as_double_1 string_1)
  moreover have "format_3f (Some (PFloat (Fin (3293257227514675 / 562949953421312)))) =
      Inr (ascii ''5.850'')"
    by (simp add: format_3f_def as_double_def string_wlk)
  moreover have "format_3f (Some (PFloat (Fin (5541538603991041 / 35184372088832)))) =
      Inr (ascii ''157.500'')"
    by (simp add: format_3f_def as_double_def string_wlk)
  ultimately show ?thesis
    by (simp add: get_message_def)
qed

text \<open>The three packages of the module, from the code to the printed line.\<close>

theorem report_names_class_witness:
  "read_package (ascii ''SWM'') [PInt 720, PInt 1, PInt 80, PInt 25, PInt 40] =
     Inr (Swimming (PInt 720) (PInt 1) (PInt 80) (PInt 25) (PInt 40)) \<and>
   show_training_info (Swimming (PInt 720) (PInt 1) (PInt 80) (PInt 25) (PInt 40)) =
     Inr (InfoMessage (ascii ''Swimming'') (PInt 1)
        (PFloat (Fin (8949553179510649 / 9007199254740992))) (PFloat (Fin 1))
        (Some (PFloat (Fin 336)))) \<and>
   read_package (ascii ''RUN'') [PInt 15000, PInt 1, PInt 75] =
     Inr (Running (PInt 15000) (PInt 1) (PInt 75)) \<and>
   show_training_info (Running (PInt 15000) (PInt 1) (PInt 75)) =
     Inr (InfoMessage (ascii ''Running'') (PInt 1) (PFloat (Fin (39 / 4)))
        (PFloat (Fin (39 / 4))) (Some (PFloat (Fin (2799 / 4))))) \<and>
   read_package (ascii ''WLK'') [PInt 9000, PInt 1, PInt 75, PInt 180] =
     Inr (SportsWalking (PInt 9000) (PInt 1) (PInt 75) (PInt 180)) \<and>
   show_training_info (SportsWalking (PInt 9000) (PInt 1) (PInt 75) (PInt 180)) =
     Inr (InfoMessage (ascii ''SportsWalking'') (PInt 1)
        (PFloat (Fin (3293257227514675 / 562949953421312)))
        (PFloat (Fin (3293257227514675 / 562949953421312)))
        (Some (PFloat (Fin (5541538603991041 / 35184372088832))))) \<and>
   main (Swimming (PInt 720) (PInt 1) (PInt 80) (PInt 25) (PInt 40)) =
     Inr (MESSAGE_0 @ ascii ''Swimming'' @ MESSAGE_1 @ ascii ''1.000'' @
          MESSAGE_2 @ ascii ''0.994'' @ MESSAGE_3 @ ascii ''1.000'' @
          MESSAGE_4 @ ascii ''336.000'' @ MESSAGE_5) \<and>
   main (Running (PInt 15000) (PInt 1) (PInt 75)) =
     Inr (MESSAGE_0 @ ascii ''Running'' @ MESSAGE_1 @ ascii ''1.000'' @
          MESSAGE_2 @ ascii ''9.750'' @ MESSAGE_3 @ ascii ''9.750'' @
          MESSAGE_4 @ ascii ''699.750'' @ MESSAGE_5) \<and>
   main (SportsWalking (PInt 9000) (PInt 1) (PInt 75) (PInt 180)) =
     Inr (MESSAGE_0 @ ascii ''SportsWalking'' @ MESSAGE_1 @ ascii ''1.000'' @
          MESSAGE_2 @ ascii ''5.850'' @ MESSAGE_3 @ ascii ''5.850'' @
          MESSAGE_4 @ ascii ''157.500'' @ MESSAGE_5)"
proof -
  let ?s = "Swimming (PInt 720) (PInt 1) (PInt 80) (PInt 25) (PInt 40)"
  let ?r = "Running (PInt 15000) (PInt 1) (PInt 75)"
  let ?w = "SportsWalking (PInt 9000) (PInt 1) (PInt 75) (PInt 180)"
  obtain ms where ms: "show_training_info ?s = Inr ms" using swm_info by simp
  obtain mr where mr: "show_training_info ?r = Inr mr" using run_info by simp
  obtain mw where mw: "show_training_info ?w = Inr mw" using wlk_info by simp
  have ps: "read_package (ascii ''SWM'') [PInt 720, PInt 1, PInt 80, PInt 25, PInt 40] = Inr ?s"
    by (simp add: read_package_def traning_types_SWM)
  have pr: "read_package (ascii ''RUN'') [PInt 15000, PInt 1, PInt 75] = Inr ?r"
    by (simp add: read_package_def traning_types_RUN)
  have pw: "read_package (ascii ''WLK'') [PInt 9000, PInt 1, PInt 75, PInt 180] = Inr ?w"
    by (simp add: read_package_def traning_types_WLK)
  obtain ls where ls: "get_message ms = Inr ls" using ms swm_info swm_message by simp
  obtain lr where lr: "get_message mr = Inr lr" using mr run_info run_message by simp
  obtain lw where lw: "get_message mw = Inr lw" using mw wlk_info wlk_message by simp
  have "training_type ms = ascii ''Swimming''"
    and "\<exists>rest. ls = MESSAGE_0 @ training_type ms @ MESSAGE_1 @ rest"
    using report_names_class [where t = ?s and m = ms and s = ls
        and data = "[PInt 720, PInt 1, PInt 80, PInt 25, PInt 40]"] ps ms ls
    by blast+
  moreover have "training_type mr = ascii ''Running''"
    using report_names_class [where t = ?r and m = mr
        and data = "[PInt 15000, PInt 1, PInt 75]"] pr mr
    by blast
  moreover have "training_type mw = ascii ''SportsWalking''"
    using report_names_class [where t = ?w and m = mw
        and data = "[PInt 9000, PInt 1, PInt 75, PInt 180]"] pw mw
    by blast
  ultimately show ?thesis
    using ps pr pw swm_info run_info wlk_info swm_message run_message wlk_message
    by (simp add: main_def)
qed

end
